theory Spec2Isabelle
  imports Complex_Main "HOL-Library.Sublist"
begin

section \<open>JavaScript strings and numbers\<close>

text \<open>
  A JavaScript string is modelled as a \<open>string\<close>, one \<open>char\<close> per code unit up to
  U+00FF. The only code units above that in the sources are the bullets of the canned
  answers in \<^verbatim>\<open>mockData.ts\<close>; they are written as their three UTF-8 bytes, and no
  modelled operation looks inside them. A \<^verbatim>\<open>Date\<close> is its time value, an \<open>int\<close> of
  milliseconds since the epoch (invalid dates are not modelled); a \<^verbatim>\<open>number\<close> that is
  only stored and passed on (confidence, relevance) is a \<open>rat\<close>.
\<close>

abbreviation LF :: char where
  "LF \<equiv> CHR 0x0A"

abbreviation DQ :: char where
  "DQ \<equiv> CHR 0x22"

definition bullet :: string where
  "bullet = [CHR 0xE2, CHR 0x80, CHR 0xA2]"

text \<open>\<^verbatim>\<open>String.prototype.toLowerCase\<close>, on the letters A to Z.\<close>

definition toLowerChar :: "char \<Rightarrow> char" where
  "toLowerChar c =
     (case map_of (zip ''ABCDEFGHIJKLMNOPQRSTUVWXYZ'' ''abcdefghijklmnopqrstuvwxyz'') c of
        Some d \<Rightarrow> d
      | None \<Rightarrow> c)"

definition toLowerCase :: "string \<Rightarrow> string" where
  "toLowerCase s = map toLowerChar s"

text \<open>\<^verbatim>\<open>s.includes(sub)\<close>: \<open>sub\<close> occurs in \<open>s\<close> as a contiguous run.\<close>

fun str_includes :: "string \<Rightarrow> string \<Rightarrow> bool" where
  "str_includes [] sub = (sub = [])"
| "str_includes (c # cs) sub = (take (length sub) (c # cs) = sub \<or> str_includes cs sub)"


text \<open>\<^verbatim>\<open>xs.slice(a, b)\<close> on an array, for \<open>0 \<le> a \<le> b\<close>.\<close>

definition slice :: "nat \<Rightarrow> nat \<Rightarrow> 'a list \<Rightarrow> 'a list" where
  "slice a b xs = take (b - a) (drop a xs)"

text \<open>\<^verbatim>\<open>String.prototype.trim\<close>: white space and line terminators, within U+00FF.\<close>

definition isWhiteSpace :: "char \<Rightarrow> bool" where
  "isWhiteSpace c \<longleftrightarrow>
     c \<in> set [CHR 0x09, CHR 0x0A, CHR 0x0B, CHR 0x0C, CHR 0x0D, CHR 0x20, CHR 0xA0]"

definition trim :: "string \<Rightarrow> string" where
  "trim s = rev (dropWhile isWhiteSpace (rev (dropWhile isWhiteSpace s)))"

text \<open>\<^verbatim>\<open>text.replace(/"/g, '""')\<close>.\<close>

definition escapeQuotes :: "string \<Rightarrow> string" where
  "escapeQuotes s = concat (map (\<lambda>c. if c = DQ then [DQ, DQ] else [c]) s)"

text \<open>\<^verbatim>\<open>xs.join(sep)\<close> on an array of strings.\<close>

fun join :: "string \<Rightarrow> string list \<Rightarrow> string" where
  "join sep [] = []"
| "join sep [x] = x"
| "join sep (x # y # ys) = x @ sep @ join sep (y # ys)"

text \<open>\<^verbatim>\<open>s.split(d)\<close> for a one-character separator, and \<^verbatim>\<open>s.split(d)[0]\<close>.\<close>

fun split :: "char \<Rightarrow> string \<Rightarrow> string list" where
  "split d [] = [[]]"
| "split d (c # cs) =
     (if c = d then [] # split d cs
      else (case split d cs of
              [] \<Rightarrow> [[c]]
            | x # xs \<Rightarrow> (c # x) # xs))"

definition split_first :: "char \<Rightarrow> string \<Rightarrow> string" where
  "split_first d s = takeWhile (\<lambda>c. c \<noteq> d) s"

text \<open>\<^verbatim>\<open>Number.prototype.toString\<close> on an integer, as \<^verbatim>\<open>Date.now().toString()\<close> uses it.\<close>

definition digit_char :: "nat \<Rightarrow> char" where
  "digit_char d = ''0123456789'' ! d"

function dec_digits :: "nat \<Rightarrow> string" where
  "dec_digits n =
     (if n < 10 then [digit_char n]
      else dec_digits (n div 10) @ [digit_char (n mod 10)])"
  by pat_completeness auto
termination
  by (relation "measure (\<lambda>n. n)") auto

declare dec_digits.simps [simp del]

definition int_toString :: "int \<Rightarrow> string" where
  "int_toString i = (if i < 0 then ''-'' @ dec_digits (nat (- i)) else dec_digits (nat i))"

text \<open>The truthiness of a string that may be \<^verbatim>\<open>null\<close> or \<^verbatim>\<open>undefined\<close>, and \<^verbatim>\<open>a || b\<close> on two.\<close>

definition truthy :: "string option \<Rightarrow> bool" where
  "truthy v = (case v of None \<Rightarrow> False | Some s \<Rightarrow> s \<noteq> [])"

definition js_or :: "string option \<Rightarrow> string option \<Rightarrow> string option" where
  "js_or a b = (if truthy a then a else b)"

section \<open>The data model (\<^verbatim>\<open>types/index.ts\<close>)\<close>

text \<open>
  Fields carry a prefix, since several interfaces share the names \<^verbatim>\<open>id\<close>, \<^verbatim>\<open>title\<close>,
  \<^verbatim>\<open>text\<close> and \<^verbatim>\<open>confidence\<close>. An optional field is an \<open>option\<close>, \<open>None\<close> standing for
  \<^verbatim>\<open>undefined\<close>. The interface declares \<^verbatim>\<open>Message.text\<close> a string, but \<^verbatim>\<open>sendMessage\<close>
  fills it from \<^verbatim>\<open>response.answer || response.response\<close> of an untyped response, which
  can be \<^verbatim>\<open>undefined\<close>; the model keeps that case.
\<close>

record source =
  src_url :: string
  src_title :: string
  src_content :: string
  src_relevance :: rat

record entity =
  ent_text :: string
  ent_label :: string
  ent_confidence :: rat
  ent_start :: "int option"
  ent_end :: "int option"

datatype sender = User | Bot

fun sender_str :: "sender \<Rightarrow> string" where
  "sender_str User = ''user''"
| "sender_str Bot = ''bot''"

record message =
  m_id :: string
  m_text :: "string option"
  m_sender :: sender
  m_timestamp :: int
  m_sources :: "source list option"
  m_entities :: "entity list option"
  m_confidence :: "rat option"

record session =
  s_id :: string
  s_title :: string
  s_messages :: "message list"
  s_createdAt :: int
  s_updatedAt :: int

record geo_location =
  g_lat :: rat
  g_lon :: rat
  g_address :: "string option"

record query_request =
  q_query :: string
  q_sessionId :: "string option"
  q_location :: "geo_location option"

text \<open>
  The value \<^verbatim>\<open>sendMessage\<close> calls \<^verbatim>\<open>response\<close>: an object of the remote service
  (\<^verbatim>\<open>QueryResponse\<close>, with \<^verbatim>\<open>answer\<close>) or an entry of the mock table (with \<^verbatim>\<open>query\<close> and
  \<^verbatim>\<open>response\<close>). The variable is untyped, so every property may be missing.
\<close>

record bot_response =
  r_query :: "string option"
  r_answer :: "string option"
  r_response :: "string option"
  r_sources :: "source list option"
  r_entities :: "entity list option"
  r_confidence :: "rat option"
  r_sessionId :: "string option"

text \<open>The options object the export dialog passes (\<^verbatim>\<open>ExportModal.tsx\<close>).\<close>

record export_options =
  format :: string
  includeMessages :: bool
  includeSources :: bool
  includeEntities :: bool
  includeMetadata :: bool
  dateRange :: string
  selectedSessions :: "string list"

text \<open>The local object \<^verbatim>\<open>exportData\<close> of the export, and the file it downloads.\<close>

record export_data =
  exportedAt :: string
  options :: export_options
  ed_sessions :: "session list"

record download =
  filename :: string
  mimeType :: string
  content :: string

text \<open>
  The sessions as \<^verbatim>\<open>JSON.stringify\<close> writes them and \<^verbatim>\<open>JSON.parse\<close> reads them back:
  the same objects, with every \<^verbatim>\<open>Date\<close> replaced by the string its \<^verbatim>\<open>toJSON\<close> gives
  (\<^verbatim>\<open>toISOString\<close>) and every \<^verbatim>\<open>undefined\<close> property left out.
\<close>

record pmessage =
  pm_id :: string
  pm_text :: "string option"
  pm_sender :: sender
  pm_timestamp :: string
  pm_sources :: "source list option"
  pm_entities :: "entity list option"
  pm_confidence :: "rat option"

record psession =
  ps_id :: string
  ps_title :: string
  ps_messages :: "pmessage list"
  ps_createdAt :: string
  ps_updatedAt :: string

text \<open>
  What \<^verbatim>\<open>localStorage.getItem('mosdac-sessions')\<close> holds: a text \<^verbatim>\<open>JSON.parse\<close> or the
  reviving \<^verbatim>\<open>map\<close> throws on, or the text of a session array.
\<close>

datatype stored = Unparsable | Saved "psession list"

text \<open>
  The built-ins of the platform the code calls and the model does not compute:
  \<^verbatim>\<open>Date.prototype.toISOString\<close>, \<^verbatim>\<open>new Date(string)\<close>, \<^verbatim>\<open>Date.prototype.toLocaleString\<close>,
  the conversion of a number to a string, and \<^verbatim>\<open>JSON.stringify(value, null, 2)\<close>.
  Every modelled function that uses one takes them as its first argument.
\<close>

record js_env =
  toISOString :: "int \<Rightarrow> string"
  newDate :: "string \<Rightarrow> int"
  toLocaleString :: "int \<Rightarrow> string"
  numToString :: "rat \<Rightarrow> string"
  JSON_stringify :: "export_data \<Rightarrow> string"

section \<open>The canned answers (\<^verbatim>\<open>services/mockData.ts\<close>)\<close>

definition mockSources :: "source list" where
  "mockSources =
     [\<lparr>src_url = ''https://mosdac.gov.in/satellite-data'',
       src_title = ''MOSDAC Satellite Data Archive'',
       src_content = ''INSAT-3D provides meteorological and oceanographic data for weather forecasting and climate monitoring.'',
       src_relevance = 0.95\<rparr>,
      \<lparr>src_url = ''https://mosdac.gov.in/weather-services'',
       src_title = ''Weather Services - MOSDAC'',
       src_content = ''Real-time weather data and forecasts using satellite imagery and ground-based observations.'',
       src_relevance = 0.87\<rparr>]"

definition mockEntities :: "entity list" where
  "mockEntities =
     [\<lparr>ent_text = ''INSAT-3D'', ent_label = ''SATELLITE'', ent_confidence = 0.99,
       ent_start = None, ent_end = None\<rparr>,
      \<lparr>ent_text = ''weather forecasting'', ent_label = ''SERVICE'', ent_confidence = 0.85,
       ent_start = None, ent_end = None\<rparr>,
      \<lparr>ent_text = ''MOSDAC'', ent_label = ''ORGANIZATION'', ent_confidence = 0.95,
       ent_start = None, ent_end = None\<rparr>]"

definition insat_body :: string where
  "insat_body =
     ''INSAT-3D is a geostationary meteorological satellite that provides:'' @ [LF] @
     [LF] @
     bullet @ '' **Weather Monitoring**: Real-time atmospheric conditions, cloud imagery, and precipitation data'' @ [LF] @
     bullet @ '' **Disaster Management**: Early warning systems for cyclones, floods, and severe weather events  '' @ [LF] @
     bullet @ '' **Climate Research**: Long-term climate data for research and analysis'' @ [LF] @
     bullet @ '' **Ocean Monitoring**: Sea surface temperature and oceanographic parameters'' @ [LF] @
     [LF] @
     ''The satellite operates from 82'' @ [CHR 0xB0] @ ''E longitude and covers the entire Indian subcontinent and surrounding regions.''"

definition weather_body :: string where
  "weather_body =
     ''MOSDAC provides comprehensive weather services including:'' @ [LF] @
     [LF] @
     bullet @ '' **Real-time Data**: Current weather conditions from satellite and ground observations'' @ [LF] @
     bullet @ '' **Forecasting**: Short-term (1-3 days) and medium-term (3-7 days) weather predictions'' @ [LF] @
     bullet @ '' **Severe Weather Alerts**: Warnings for cyclones, thunderstorms, and extreme weather'' @ [LF] @
     bullet @ '' **Climate Monitoring**: Long-term climate trends and seasonal patterns'' @ [LF] @
     [LF] @
     ''Our data is used by meteorological departments, researchers, and disaster management agencies across India.''"

definition mockBotResponses :: "bot_response list" where
  "mockBotResponses =
     [\<lparr>r_query = Some ''insat'', r_answer = None, r_response = Some insat_body,
       r_sources = Some mockSources, r_entities = Some mockEntities,
       r_confidence = Some 0.92, r_sessionId = None\<rparr>,
      \<lparr>r_query = Some ''weather'', r_answer = None, r_response = Some weather_body,
       r_sources = Some (slice 0 1 mockSources), r_entities = Some (slice 1 2 mockEntities),
       r_confidence = Some 0.88, r_sessionId = None\<rparr>]"

definition default_body :: "string \<Rightarrow> string" where
  "default_body query =
     ''I understand you'' @ [CHR 0x27] @ ''re asking about '' @ [DQ] @ query @ [DQ] @
       ''. Based on MOSDAC'' @ [CHR 0x27] @ ''s data archive, I can help you with:'' @ [LF] @
     [LF] @
     bullet @ '' **Satellite Data**: Information about INSAT, SCATSAT, and other satellite missions'' @ [LF] @
     bullet @ '' **Weather Services**: Current conditions, forecasts, and climate data'' @ [LF] @
     bullet @ '' **Ocean Data**: Sea surface temperature, wave height, and marine parameters'' @ [LF] @
     bullet @ '' **Research Tools**: Data access, APIs, and analysis capabilities'' @ [LF] @
     [LF] @
     ''Could you please be more specific about what aspect you'' @ [CHR 0x27] @ ''d like to know more about?''"

definition defaultResponse :: "string \<Rightarrow> bot_response" where
  "defaultResponse query =
     \<lparr>r_query = None, r_answer = None, r_response = Some (default_body query),
      r_sources = Some mockSources, r_entities = Some [],
      r_confidence = Some 0.75, r_sessionId = None\<rparr>"

text \<open>
  The \<^verbatim>\<open>for ... of\<close> loop of \<^verbatim>\<open>getMockResponse\<close>: the first entry whose \<^verbatim>\<open>query\<close> the
  lowercased text includes is returned. (\<^verbatim>\<open>includes\<close> turns a missing \<^verbatim>\<open>query\<close> into the
  text \<^verbatim>\<open>undefined\<close>; every entry of the table has one.)
\<close>

definition mock_query :: "bot_response \<Rightarrow> string" where
  "mock_query mock = (case r_query mock of Some k \<Rightarrow> k | None \<Rightarrow> ''undefined'')"

fun mock_loop :: "string \<Rightarrow> bot_response list \<Rightarrow> bot_response option" where
  "mock_loop lowerQuery [] = None"
| "mock_loop lowerQuery (mock # rest) =
     (if str_includes lowerQuery (mock_query mock)
      then Some mock
      else mock_loop lowerQuery rest)"

definition getMockResponse :: "string \<Rightarrow> bot_response" where
  "getMockResponse query =
     (let lowerQuery = toLowerCase query in
      case mock_loop lowerQuery mockBotResponses of
        Some mock \<Rightarrow> mock
      | None \<Rightarrow> defaultResponse query)"

section \<open>The remote service (\<^verbatim>\<open>services/api.ts\<close>)\<close>

text \<open>
  \<^verbatim>\<open>fetch\<close> rejects (no network), or resolves with a response: its \<^verbatim>\<open>ok\<close> flag, its
  \<^verbatim>\<open>statusText\<close> and its body, \<open>None\<close> when \<^verbatim>\<open>response.json()\<close> rejects because
  the body is not JSON. A JSON body is \<^verbatim>\<open>null\<close> or a value whose properties can be
  read. A rejected promise or a \<^verbatim>\<open>throw\<close> is the left injection of a sum.
\<close>

datatype js_error = FetchFailed | ApiError string | BodyNotJSON | TypeError

datatype api_body = BodyNull | BodyObject bot_response

datatype fetch_outcome = Rejected | Responded bool string "api_body option"

definition try_catch :: "'e + 'a \<Rightarrow> ('e \<Rightarrow> 'e + 'a) \<Rightarrow> 'e + 'a" where
  "try_catch body handler = (case body of Inl e \<Rightarrow> handler e | Inr v \<Rightarrow> Inr v)"

definition request :: "fetch_outcome \<Rightarrow> js_error + api_body" where
  "request outcome =
     (case outcome of
        Rejected \<Rightarrow> Inl FetchFailed
      | Responded ok statusText body \<Rightarrow>
          if \<not> ok then Inl (ApiError (''API Error: '' @ statusText))
          else (case body of None \<Rightarrow> Inl BodyNotJSON | Some v \<Rightarrow> Inr v))"

definition apiService_sendMessage ::
    "(query_request \<Rightarrow> fetch_outcome) \<Rightarrow> query_request \<Rightarrow> js_error + api_body" where
  "apiService_sendMessage fetch req = request (fetch req)"

section \<open>The chat hook (\<^verbatim>\<open>hooks/useChat.ts\<close>)\<close>

text \<open>
  The state of the hook (\<^verbatim>\<open>sessions\<close>, \<^verbatim>\<open>currentSessionId\<close>, \<^verbatim>\<open>isLoading\<close>) together with
  the entry \<^verbatim>\<open>mosdac-sessions\<close> of \<^verbatim>\<open>localStorage\<close>. Every operation is a function from the
  state before the call to the state after React has applied the queued updates. A
  call that reads the clock takes the instant as an argument, all clock reads of one
  synchronous step returning the same instant.

  A callback made by \<^verbatim>\<open>useCallback\<close> reads the state variables of the render that made
  it. \<^verbatim>\<open>deleteSession\<close> (dependencies \<^verbatim>\<open>[currentSessionId]\<close>) compares with the pointer
  of that render: it is the argument \<open>captured\<close>, the same for every call of one event,
  whatever the calls before it in the event have queued. The updates of
  \<^verbatim>\<open>sessions\<close> are functions of the previous value and see the latest one.
  \<^verbatim>\<open>sendMessage\<close> is modelled for a call on the callbacks of the latest render, where
  the captured pointer is the pointer of the state.
\<close>

record chat_state =
  sessions :: "session list"
  currentSessionId :: "string option"
  isLoading :: bool
  localStorage :: "stored option"

definition initial_state :: "stored option \<Rightarrow> chat_state" where
  "initial_state blob =
     \<lparr>sessions = [], currentSessionId = None, isLoading = False, localStorage = blob\<rparr>"

definition createNewSession :: "int \<Rightarrow> chat_state \<Rightarrow> session \<times> chat_state" where
  "createNewSession now st =
     (let newSession = \<lparr>s_id = int_toString now, s_title = ''New Chat'', s_messages = [],
                          s_createdAt = now, s_updatedAt = now\<rparr>
      in (newSession,
          st\<lparr>sessions := newSession # sessions st,
             currentSessionId := Some (s_id newSession)\<rparr>))"


definition deleteSession :: "string option \<Rightarrow> string \<Rightarrow> chat_state \<Rightarrow> chat_state" where
  "deleteSession captured sessionId st =
     st\<lparr>sessions := filter (\<lambda>s. s_id s \<noteq> sessionId) (sessions st),
        currentSessionId :=
          (if captured = Some sessionId then None else currentSessionId st)\<rparr>"

definition renameSession :: "string \<Rightarrow> string \<Rightarrow> int \<Rightarrow> chat_state \<Rightarrow> chat_state" where
  "renameSession sessionId newTitle now st =
     st\<lparr>sessions :=
          map (\<lambda>s. if s_id s = sessionId then s\<lparr>s_title := newTitle, s_updatedAt := now\<rparr> else s)
            (sessions st)\<rparr>"

subsection \<open>\<^verbatim>\<open>sendMessage\<close>\<close>





text \<open>
  The inner \<^verbatim>\<open>try\<close>/\<^verbatim>\<open>catch\<close>: the remote call, and on any rejection the mock response
  (after a delay that the model leaves out).
\<close>

definition resolve ::
    "(query_request \<Rightarrow> fetch_outcome) \<Rightarrow> string \<Rightarrow> string \<Rightarrow> geo_location option
       \<Rightarrow> js_error + api_body" where
  "resolve fetch text sessionId location =
     try_catch
       (apiService_sendMessage fetch
          \<lparr>q_query = text, q_sessionId = Some sessionId, q_location = location\<rparr>)
       (\<lambda>apiError. Inr (BodyObject (getMockResponse text)))"

text \<open>Reading \<^verbatim>\<open>response.answer\<close> throws a \<^verbatim>\<open>TypeError\<close> when the response is \<^verbatim>\<open>null\<close>.\<close>

definition botMessage :: "int \<Rightarrow> api_body \<Rightarrow> js_error + message" where
  "botMessage now response =
     (case response of
        BodyNull \<Rightarrow> Inl TypeError
      | BodyObject r \<Rightarrow>
          Inr \<lparr>m_id = int_toString (now + 1),
               m_text = js_or (r_answer r) (r_response r),
               m_sender = Bot, m_timestamp = now,
               m_sources = r_sources r, m_entities = r_entities r,
               m_confidence = r_confidence r\<rparr>)"


text \<open>
  The rest of \<^verbatim>\<open>sendMessage\<close>, run when the awaited response settles, on the state of
  that moment. \<open>sendMessage_try\<close> is the body of the outer \<^verbatim>\<open>try\<close> up to the bot
  message, \<open>assistantMessage\<close> the message that is added: the bot message, or in the
  \<^verbatim>\<open>catch\<close> branch the apology. The \<^verbatim>\<open>finally\<close> lowers the loading flag.
\<close>

definition sendMessage_try ::
    "(query_request \<Rightarrow> fetch_outcome) \<Rightarrow> int \<Rightarrow> string \<Rightarrow> string \<Rightarrow> geo_location option
       \<Rightarrow> js_error + message" where
  "sendMessage_try fetch now sessionId text location =
     (case resolve fetch text sessionId location of
        Inl e \<Rightarrow> Inl e
      | Inr response \<Rightarrow> botMessage now response)"




subsection \<open>The two effects: loading on mount, saving on change\<close>

definition message_toJSON :: "js_env \<Rightarrow> message \<Rightarrow> pmessage" where
  "message_toJSON env m =
     \<lparr>pm_id = m_id m, pm_text = m_text m, pm_sender = m_sender m,
      pm_timestamp = toISOString env (m_timestamp m),
      pm_sources = m_sources m, pm_entities = m_entities m,
      pm_confidence = m_confidence m\<rparr>"

definition session_toJSON :: "js_env \<Rightarrow> session \<Rightarrow> psession" where
  "session_toJSON env s =
     \<lparr>ps_id = s_id s, ps_title = s_title s,
      ps_messages = map (message_toJSON env) (s_messages s),
      ps_createdAt = toISOString env (s_createdAt s),
      ps_updatedAt = toISOString env (s_updatedAt s)\<rparr>"

definition saveSessions :: "js_env \<Rightarrow> chat_state \<Rightarrow> chat_state" where
  "saveSessions env st =
     (if length (sessions st) > 0
      then st\<lparr>localStorage := Some (Saved (map (session_toJSON env) (sessions st)))\<rparr>
      else st)"

definition reviveMessage :: "js_env \<Rightarrow> pmessage \<Rightarrow> message" where
  "reviveMessage env m =
     \<lparr>m_id = pm_id m, m_text = pm_text m, m_sender = pm_sender m,
      m_timestamp = newDate env (pm_timestamp m),
      m_sources = pm_sources m, m_entities = pm_entities m,
      m_confidence = pm_confidence m\<rparr>"

definition reviveSession :: "js_env \<Rightarrow> psession \<Rightarrow> session" where
  "reviveSession env s =
     \<lparr>s_id = ps_id s, s_title = ps_title s,
      s_messages = map (reviveMessage env) (ps_messages s),
      s_createdAt = newDate env (ps_createdAt s),
      s_updatedAt = newDate env (ps_updatedAt s)\<rparr>"

definition loadSessions :: "js_env \<Rightarrow> chat_state \<Rightarrow> chat_state" where
  "loadSessions env st =
     (case localStorage st of
        None \<Rightarrow> st
      | Some Unparsable \<Rightarrow> st
      | Some (Saved parsed) \<Rightarrow> st\<lparr>sessions := map (reviveSession env) parsed\<rparr>)"

subsection \<open>\<^verbatim>\<open>exportData\<close>\<close>

text \<open>
  The CSV rows. \<^verbatim>\<open>message.text.replace\<close> throws a \<^verbatim>\<open>TypeError\<close> on a message without
  text; \<^verbatim>\<open>message.confidence || ''\<close> is empty for a missing confidence and for \<open>0\<close>.
  The two nested \<^verbatim>\<open>forEach\<close> loops push one row per message onto \<^verbatim>\<open>csvRows\<close>.
\<close>

definition csv_header :: string where
  "csv_header = ''Session ID,Title,Message ID,Sender,Text,Timestamp,Confidence''"

definition confidence_field :: "js_env \<Rightarrow> message \<Rightarrow> string" where
  "confidence_field env m =
     (case m_confidence m of
        None \<Rightarrow> []
      | Some c \<Rightarrow> if c = 0 then [] else numToString env c)"

definition csv_row :: "js_env \<Rightarrow> session \<Rightarrow> message \<Rightarrow> js_error + string" where
  "csv_row env session msg =
     (case m_text msg of
        None \<Rightarrow> Inl TypeError
      | Some text \<Rightarrow>
          Inr (join '',''
                 [s_id session,
                  [DQ] @ s_title session @ [DQ],
                  m_id msg,
                  sender_str (m_sender msg),
                  [DQ] @ escapeQuotes text @ [DQ],
                  toISOString env (m_timestamp msg),
                  confidence_field env msg]))"

fun forEach_message ::
    "js_env \<Rightarrow> session \<Rightarrow> message list \<Rightarrow> string list \<Rightarrow> js_error + string list" where
  "forEach_message env session [] csvRows = Inr csvRows"
| "forEach_message env session (msg # rest) csvRows =
     (case csv_row env session msg of
        Inl e \<Rightarrow> Inl e
      | Inr row \<Rightarrow> forEach_message env session rest (csvRows @ [row]))"

fun forEach_session :: "js_env \<Rightarrow> session list \<Rightarrow> string list \<Rightarrow> js_error + string list" where
  "forEach_session env [] csvRows = Inr csvRows"
| "forEach_session env (session # rest) csvRows =
     (case forEach_message env session (s_messages session) csvRows of
        Inl e \<Rightarrow> Inl e
      | Inr rows \<Rightarrow> forEach_session env rest rows)"

text \<open>The HTML report: the template literal, piece by piece.\<close>

definition html_message :: "js_env \<Rightarrow> message \<Rightarrow> string" where
  \<open>html_message env msg =
     [LF] @
     ''                <div class="message '' @ sender_str (m_sender msg) @ ''">'' @ [LF] @
     ''                    <strong>'' @
       (if m_sender msg = User then ''You'' else ''MOSDAC AI'') @ '':</strong>'' @ [LF] @
     ''                    <p>'' @
       (case m_text msg of Some text \<Rightarrow> text | None \<Rightarrow> ''undefined'') @ ''</p>'' @ [LF] @
     ''                    <div class="metadata">'' @
       toLocaleString env (m_timestamp msg) @ ''</div>'' @ [LF] @
     ''                </div>'' @ [LF] @
     ''            ''\<close>

definition html_session :: "js_env \<Rightarrow> session \<Rightarrow> string" where
  \<open>html_session env session =
     [LF] @
     ''        <div class="session">'' @ [LF] @
     ''            <h2>'' @ s_title session @ ''</h2>'' @ [LF] @
     ''            <p class="metadata">Created: '' @
       toLocaleString env (s_createdAt session) @ ''</p>'' @ [LF] @
     ''            '' @ concat (map (html_message env) (s_messages session)) @ [LF] @
     ''        </div>'' @ [LF] @
     ''    ''\<close>

definition html_report :: "js_env \<Rightarrow> int \<Rightarrow> session list \<Rightarrow> string" where
  \<open>html_report env now selected =
     [LF] @
     ''<!DOCTYPE html>'' @ [LF] @
     ''<html>'' @ [LF] @
     ''<head>'' @ [LF] @
     ''    <title>MOSDAC Chat Export</title>'' @ [LF] @
     ''    <style>'' @ [LF] @
     ''        body { font-family: Arial, sans-serif; margin: 20px; }'' @ [LF] @
     ''        .session { margin-bottom: 30px; border: 1px solid #ddd; padding: 15px; }'' @ [LF] @
     ''        .message { margin: 10px 0; padding: 10px; border-radius: 5px; }'' @ [LF] @
     ''        .user { background: #e3f2fd; }'' @ [LF] @
     ''        .bot { background: #f5f5f5; }'' @ [LF] @
     ''        .metadata { font-size: 0.8em; color: #666; }'' @ [LF] @
     ''    </style>'' @ [LF] @
     ''</head>'' @ [LF] @
     ''<body>'' @ [LF] @
     ''    <h1>MOSDAC Chat Export</h1>'' @ [LF] @
     ''    <p>Exported on: '' @ toLocaleString env now @ ''</p>'' @ [LF] @
     ''    '' @ concat (map (html_session env) selected) @ [LF] @
     ''</body>'' @ [LF] @
     ''</html>''\<close>

text \<open>
  \<^verbatim>\<open>exportData(options)\<close> at the instant \<open>now\<close>. It returns what it hands to the browser
  for download (or the error it throws) and the state of the hook after the call.
  \<open>exportObject\<close> is the local object \<^verbatim>\<open>exportData\<close> after the three filters, which
  rewrite its \<^verbatim>\<open>sessions\<close> property; the CSV and HTML branches read
  \<^verbatim>\<open>selectedSessions\<close>, the list before the filters.
\<close>

definition exportObject :: "js_env \<Rightarrow> export_options \<Rightarrow> int \<Rightarrow> session list \<Rightarrow> export_data" where
  "exportObject env opts now selected =
     (let ed0 = \<lparr>exportedAt = toISOString env now, options = opts, ed_sessions = selected\<rparr>;
          ed1 = (if \<not> includeMessages opts
                 then ed0\<lparr>ed_sessions := map (\<lambda>s. s\<lparr>s_messages := []\<rparr>) (ed_sessions ed0)\<rparr>
                 else ed0);
          ed2 = (if \<not> includeSources opts
                 then ed1\<lparr>ed_sessions :=
                        map (\<lambda>s. s\<lparr>s_messages := map (\<lambda>m. m\<lparr>m_sources := None\<rparr>) (s_messages s)\<rparr>)
                          (ed_sessions ed1)\<rparr>
                 else ed1);
          ed3 = (if \<not> includeEntities opts
                 then ed2\<lparr>ed_sessions :=
                        map (\<lambda>s. s\<lparr>s_messages := map (\<lambda>m. m\<lparr>m_entities := None\<rparr>) (s_messages s)\<rparr>)
                          (ed_sessions ed2)\<rparr>
                 else ed2)
      in ed3)"

definition exportData ::
    "js_env \<Rightarrow> export_options \<Rightarrow> int \<Rightarrow> chat_state \<Rightarrow> (js_error + download) \<times> chat_state" where
  "exportData env opts now st =
     (let selected = filter (\<lambda>s. s_id s \<in> set (selectedSessions opts)) (sessions st);
          data = exportObject env opts now selected;
          timestamp = split_first (CHR ''T'') (toISOString env now);
          name = ''mosdac-export-'' @ timestamp;
          result =
            (if format opts = ''json''
             then Inr \<lparr>filename = name @ ''.json'', mimeType = ''application/json'',
                       content = JSON_stringify env data\<rparr>
             else if format opts = ''csv''
             then (case forEach_session env selected [csv_header] of
                     Inl e \<Rightarrow> Inl e
                   | Inr csvRows \<Rightarrow>
                       Inr \<lparr>filename = name @ ''.csv'', mimeType = ''text/csv'',
                            content = join [LF] csvRows\<rparr>)
             else if format opts = ''html''
             then Inr \<lparr>filename = name @ ''.html'', mimeType = ''text/html'',
                       content = html_report env now selected\<rparr>
             else Inr \<lparr>filename = name @ ''.json'', mimeType = ''application/json'',
                       content = JSON_stringify env data\<rparr>)
      in (result, st))"

subsection \<open>The objects \<^verbatim>\<open>exportData\<close> touches\<close>

text \<open>
  JavaScript objects and arrays are shared by reference, so whether the export changes
  the sessions of the hook depends on which objects it writes to. This part models
  that: the store is the list of the objects allocated so far, a reference is an
  index into it. A session object (id, title, messages, createdAt, updatedAt) holds a
  reference to its array of messages, an array holds references to its elements, and
  the local object \<^verbatim>\<open>exportData\<close> (exportedAt, options, sessions) holds a reference to
  its \<^verbatim>\<open>sessions\<close> array; \<^verbatim>\<open>csvRows\<close> is an array of strings. (The dates, the options
  and the \<^verbatim>\<open>sources\<close> and \<^verbatim>\<open>entities\<close> arrays of a message are copied by reference and
  never written; they are kept as values.)
\<close>

type_synonym ref = nat

datatype obj =
    SessionObj string string ref int int
  | MessageObj message
  | ArrayObj "ref list"
  | ExportObj string export_options ref
  | RowsObj "string list"

type_synonym store = "obj list"

text \<open>Reading a reference, allocating an object, reading an array and \<^verbatim>\<open>s.id\<close>.\<close>

definition lookup :: "store \<Rightarrow> ref \<Rightarrow> obj option" where
  "lookup h r = (if r < length h then Some (h ! r) else None)"

definition alloc :: "obj \<Rightarrow> store \<Rightarrow> ref \<times> store" where
  "alloc v h = (length h, h @ [v])"

definition elements :: "store \<Rightarrow> ref \<Rightarrow> ref list" where
  "elements h r = (case lookup h r of Some (ArrayObj rs) \<Rightarrow> rs | _ \<Rightarrow> [])"

definition id_at :: "store \<Rightarrow> ref \<Rightarrow> string option" where
  "id_at h r = (case lookup h r of Some (SessionObj i t ms c u) \<Rightarrow> Some i | _ \<Rightarrow> None)"

text \<open>
  \<^verbatim>\<open>xs.map(f)\<close> where \<open>f\<close> builds a new object from each element (and may allocate on
  the way): every result is allocated, and the array of the results is returned.
\<close>

fun map_alloc :: "(obj \<Rightarrow> store \<Rightarrow> obj \<times> store) \<Rightarrow> ref list \<Rightarrow> store \<Rightarrow> ref list \<times> store" where
  "map_alloc f [] h = ([], h)"
| "map_alloc f (r # rs) h =
     (case lookup h r of
        None \<Rightarrow> map_alloc f rs h
      | Some v \<Rightarrow>
          (let (v', h1) = f v h;
               (r', h2) = alloc v' h1;
               (rs', h3) = map_alloc f rs h2
           in (r' # rs', h3)))"

text \<open>
  The three callbacks: \<^verbatim>\<open>{ ...s, messages: [] }\<close>, \<^verbatim>\<open>{ ...m, sources: undefined }\<close> (or
  \<^verbatim>\<open>entities\<close>), and \<^verbatim>\<open>{ ...s, messages: s.messages.map(...) }\<close>.
\<close>

definition without_messages :: "obj \<Rightarrow> store \<Rightarrow> obj \<times> store" where
  "without_messages v h =
     (case v of
        SessionObj i t ms c u \<Rightarrow> (let (a, h1) = alloc (ArrayObj []) h in (SessionObj i t a c u, h1))
      | _ \<Rightarrow> (v, h))"

definition message_with :: "(message \<Rightarrow> message) \<Rightarrow> obj \<Rightarrow> store \<Rightarrow> obj \<times> store" where
  "message_with f v h = (case v of MessageObj m \<Rightarrow> (MessageObj (f m), h) | _ \<Rightarrow> (v, h))"

definition messages_with :: "(message \<Rightarrow> message) \<Rightarrow> obj \<Rightarrow> store \<Rightarrow> obj \<times> store" where
  "messages_with f v h =
     (case v of
        SessionObj i t ms c u \<Rightarrow>
          (let (ms', h1) = map_alloc (message_with f) (elements h ms) h;
               (a, h2) = alloc (ArrayObj ms') h1
           in (SessionObj i t a c u, h2))
      | _ \<Rightarrow> (v, h))"

text \<open>
  \<^verbatim>\<open>exportData.sessions = exportData.sessions.map(f)\<close>: the read, the map, and the
  assignment to the property of the local object.
\<close>

definition sessions_of :: "store \<Rightarrow> ref \<Rightarrow> ref list" where
  "sessions_of h e = (case lookup h e of Some (ExportObj ts opts arr) \<Rightarrow> elements h arr | _ \<Rightarrow> [])"

definition assign_sessions :: "ref \<Rightarrow> ref \<Rightarrow> store \<Rightarrow> store" where
  "assign_sessions e arr h =
     (case lookup h e of Some (ExportObj ts opts old) \<Rightarrow> h[e := ExportObj ts opts arr] | _ \<Rightarrow> h)"

definition replace_sessions :: "(obj \<Rightarrow> store \<Rightarrow> obj \<times> store) \<Rightarrow> ref \<Rightarrow> store \<Rightarrow> store" where
  "replace_sessions f e h =
     (let (rs, h1) = map_alloc f (sessions_of h e) h;
          (arr, h2) = alloc (ArrayObj rs) h1
      in assign_sessions e arr h2)"

text \<open>Reading a message and a session back from the store, and \<^verbatim>\<open>csvRows.push(row)\<close>.\<close>

definition message_at :: "store \<Rightarrow> ref \<Rightarrow> message option" where
  "message_at h r = (case lookup h r of Some (MessageObj m) \<Rightarrow> Some m | _ \<Rightarrow> None)"

definition session_at :: "store \<Rightarrow> ref \<Rightarrow> session option" where
  "session_at h r =
     (case lookup h r of
        Some (SessionObj i t ms c u) \<Rightarrow>
          Some \<lparr>s_id = i, s_title = t,
                s_messages = List.map_filter (message_at h) (elements h ms),
                s_createdAt = c, s_updatedAt = u\<rparr>
      | _ \<Rightarrow> None)"

definition push :: "ref \<Rightarrow> string \<Rightarrow> store \<Rightarrow> store" where
  "push a row h = (case lookup h a of Some (RowsObj rows) \<Rightarrow> h[a := RowsObj (rows @ [row])] | _ \<Rightarrow> h)"

fun push_messages ::
    "js_env \<Rightarrow> ref \<Rightarrow> session \<Rightarrow> message list \<Rightarrow> store \<Rightarrow> js_error option \<times> store" where
  "push_messages env csvRows session [] h = (None, h)"
| "push_messages env csvRows session (msg # rest) h =
     (case csv_row env session msg of
        Inl e \<Rightarrow> (Some e, h)
      | Inr row \<Rightarrow> push_messages env csvRows session rest (push csvRows row h))"

fun push_sessions ::
    "js_env \<Rightarrow> ref \<Rightarrow> session list \<Rightarrow> store \<Rightarrow> js_error option \<times> store" where
  "push_sessions env csvRows [] h = (None, h)"
| "push_sessions env csvRows (session # rest) h =
     (case push_messages env csvRows session (s_messages session) h of
        (Some e, h') \<Rightarrow> (Some e, h')
      | (None, h') \<Rightarrow> push_sessions env csvRows rest h')"

text \<open>The sessions an array of the store stands for.\<close>

definition denote :: "store \<Rightarrow> ref \<Rightarrow> session list" where
  "denote h arr = List.map_filter (session_at h) (elements h arr)"

text \<open>
  The allocations and writes of \<^verbatim>\<open>exportData\<close>, in the order of the source, on the store
  \<open>h\<close> in which \<open>sessions_ref\<close> is the array the hook holds in \<^verbatim>\<open>sessions\<close>: the array
  \<^verbatim>\<open>filter\<close> returns, the local object, the three rewrites of its \<^verbatim>\<open>sessions\<close>, and in the
  CSV branch the array \<^verbatim>\<open>csvRows\<close> with its pushes (which stop at the first throw).
\<close>

definition exportData_store :: "js_env \<Rightarrow> export_options \<Rightarrow> int \<Rightarrow> ref \<Rightarrow> store \<Rightarrow> store" where
  "exportData_store env opts now sessions_ref h =
     (let (selected, h1) =
            alloc (ArrayObj (filter (\<lambda>r. case id_at h r of
                                            Some i \<Rightarrow> i \<in> set (selectedSessions opts)
                                          | None \<Rightarrow> False)
                              (elements h sessions_ref))) h;
          (data, h2) = alloc (ExportObj (toISOString env now) opts selected) h1;
          h3 = (if \<not> includeMessages opts then replace_sessions without_messages data h2
                else h2);
          h4 = (if \<not> includeSources opts
                then replace_sessions (messages_with (\<lambda>m. m\<lparr>m_sources := None\<rparr>)) data h3
                else h3);
          h5 = (if \<not> includeEntities opts
                then replace_sessions (messages_with (\<lambda>m. m\<lparr>m_entities := None\<rparr>)) data h4
                else h4)
      in if format opts = ''csv''
         then (let (csvRows, h6) = alloc (RowsObj [csv_header]) h5
               in snd (push_sessions env csvRows
                         (denote h6 selected) h6))
         else h5)"

text \<open>The objects below \<open>n\<close> are in the second store what they are in the first.\<close>

definition keeps :: "nat \<Rightarrow> store \<Rightarrow> store \<Rightarrow> bool" where
  "keeps n h h' \<longleftrightarrow> n \<le> length h \<and> length h \<le> length h' \<and> take n h' = take n h"

section \<open>Renaming from the side bar (\<^verbatim>\<open>components/Sidebar.tsx\<close>)\<close>

record sidebar_state =
  editingSessionId :: "string option"
  editingTitle :: string

definition handleStartEdit :: "session \<Rightarrow> sidebar_state \<Rightarrow> sidebar_state" where
  "handleStartEdit s sb = sb\<lparr>editingSessionId := Some (s_id s), editingTitle := s_title s\<rparr>"

text \<open>\<^verbatim>\<open>onRenameSession\<close> is the hook's \<^verbatim>\<open>renameSession\<close> (the wiring of \<^verbatim>\<open>App.tsx\<close>).\<close>

definition handleFinishEdit ::
    "string \<Rightarrow> int \<Rightarrow> sidebar_state \<times> chat_state \<Rightarrow> sidebar_state \<times> chat_state" where
  "handleFinishEdit sessionId now p =
     (let (sb, st) = p;
          st' = (if trim (editingTitle sb) \<noteq> []
                 then renameSession sessionId (trim (editingTitle sb)) now st
                 else st)
      in (sb\<lparr>editingSessionId := None, editingTitle := []\<rparr>, st'))"

section \<open>Sequences of calls, and the notions the properties use\<close>

text \<open>The three session calls of the hook, each with the instant it reads from the clock.\<close>

datatype repo_call =
    CreateSession int
  | DeleteSession string
  | RenameSession string string int

text \<open>
  A call on the callbacks of a render whose pointer was \<open>captured\<close>, and the calls of
  one event handler, which all run on the callbacks of the same render.
\<close>

fun call :: "string option \<Rightarrow> repo_call \<Rightarrow> chat_state \<Rightarrow> chat_state" where
  "call captured (CreateSession now) st = snd (createNewSession now st)"
| "call captured (DeleteSession sessionId) st = deleteSession captured sessionId st"
| "call captured (RenameSession sessionId newTitle now) st =
     renameSession sessionId newTitle now st"

definition run_calls :: "string option \<Rightarrow> repo_call list \<Rightarrow> chat_state \<Rightarrow> chat_state" where
  "run_calls captured cs st = foldl (\<lambda>st c. call captured c st) st cs"

text \<open>
  An event: its calls run on the callbacks of the render of the state it starts from.
  React renders again after the event, so the next event captures the pointer this
  one left.
\<close>

definition event :: "repo_call list \<Rightarrow> chat_state \<Rightarrow> chat_state" where
  "event cs st = run_calls (currentSessionId st) cs st"

definition run_events :: "repo_call list list \<Rightarrow> chat_state \<Rightarrow> chat_state" where
  "run_events es st = foldl (\<lambda>st cs. event cs st) st es"

text \<open>
  No call of the event deletes a session that an earlier call of the same event
  created (\<open>made\<close> holds the ids created so far).
\<close>

fun no_delete_of_made :: "string list \<Rightarrow> repo_call list \<Rightarrow> bool" where
  "no_delete_of_made made [] = True"
| "no_delete_of_made made (CreateSession now # cs) =
     no_delete_of_made (int_toString now # made) cs"
| "no_delete_of_made made (DeleteSession sessionId # cs) =
     (sessionId \<notin> set made \<and> no_delete_of_made made cs)"
| "no_delete_of_made made (RenameSession sessionId newTitle now # cs) =
     no_delete_of_made made cs"

text \<open>The current-session pointer is unset, or it is the id of a session of the collection.\<close>

definition pointer_valid :: "chat_state \<Rightarrow> bool" where
  "pointer_valid st =
     (case currentSessionId st of
        None \<Rightarrow> True
      | Some cur \<Rightarrow> cur \<in> s_id ` set (sessions st))"



text \<open>Every timestamp of the collection survives \<^verbatim>\<open>toISOString\<close> followed by \<^verbatim>\<open>new Date\<close>.\<close>

definition dates_survive :: "js_env \<Rightarrow> session list \<Rightarrow> bool" where
  "dates_survive env ss =
     (\<forall>s \<in> set ss.
        newDate env (toISOString env (s_createdAt s)) = s_createdAt s \<and>
        newDate env (toISOString env (s_updatedAt s)) = s_updatedAt s \<and>
        (\<forall>m \<in> set (s_messages s).
           newDate env (toISOString env (m_timestamp m)) = m_timestamp m))"

text \<open>Every timestamp of the collection is a valid time value of a \<^verbatim>\<open>Date\<close>.\<close>

definition valid_time :: "int \<Rightarrow> bool" where
  "valid_time t \<longleftrightarrow> \<bar>t\<bar> \<le> 8640000000000000"

definition valid_dates :: "session list \<Rightarrow> bool" where
  "valid_dates ss =
     (\<forall>s \<in> set ss.
        valid_time (s_createdAt s) \<and> valid_time (s_updatedAt s) \<and>
        (\<forall>m \<in> set (s_messages s). valid_time (m_timestamp m)))"

text \<open>The lines of a text, the row of a message that has a text, and the selection.\<close>

definition lines :: "string \<Rightarrow> string list" where
  "lines s = split LF s"

definition csv_row_of :: "js_env \<Rightarrow> session \<Rightarrow> message \<Rightarrow> string" where
  "csv_row_of env session msg =
     (case csv_row env session msg of Inr row \<Rightarrow> row | Inl e \<Rightarrow> [])"

definition all_rows :: "js_env \<Rightarrow> session list \<Rightarrow> string list" where
  "all_rows env selected =
     concat (map (\<lambda>s. map (csv_row_of env s) (s_messages s)) selected)"

definition selected_of :: "export_options \<Rightarrow> chat_state \<Rightarrow> session list" where
  "selected_of opts st = filter (\<lambda>s. s_id s \<in> set (selectedSessions opts)) (sessions st)"

text \<open>A state with one session, for the examples.\<close>

definition example_session :: session where
  "example_session =
     \<lparr>s_id = ''1'', s_title = ''Weather'', s_messages = [], s_createdAt = 1, s_updatedAt = 1\<rparr>"

definition example_state :: chat_state where
  "example_state =
     \<lparr>sessions = [example_session], currentSessionId = Some ''1'', isLoading = False,
      localStorage = None\<rparr>"

text \<open>
  Two sessions with three messages: a question with commas, a reply (\<open>answer\<close> has
  quotes in its text; an example replaces it by one with a line break) and a greeting.
\<close>

definition question :: message where
  "question =
     \<lparr>m_id = ''10'', m_text = Some ''Rain, wind, or sun?'', m_sender = User,
      m_timestamp = 1705312800000, m_sources = None, m_entities = None,
      m_confidence = None\<rparr>"

definition answer :: message where
  "answer =
     \<lparr>m_id = ''11'', m_text = Some (''It says '' @ [DQ] @ ''sun'' @ [DQ] @ '', mostly''),
      m_sender = Bot, m_timestamp = 1705312802500, m_sources = None, m_entities = Some [],
      m_confidence = Some 0.92\<rparr>"

definition greeting :: message where
  "greeting =
     \<lparr>m_id = ''20'', m_text = Some ''Hello'', m_sender = User,
      m_timestamp = 1705313100000, m_sources = None, m_entities = None,
      m_confidence = None\<rparr>"

definition two_sessions :: "message \<Rightarrow> chat_state" where
  "two_sessions reply =
     \<lparr>sessions =
        [\<lparr>s_id = ''1'', s_title = ''Weather'', s_messages = [question, reply],
          s_createdAt = 1705312800000, s_updatedAt = 1705312802500\<rparr>,
         \<lparr>s_id = ''2'', s_title = ''Ocean'', s_messages = [greeting],
          s_createdAt = 1705313100000, s_updatedAt = 1705313100000\<rparr>],
      currentSessionId = Some ''2'', isLoading = False, localStorage = None\<rparr>"

definition csv_options :: export_options where
  "csv_options =
     \<lparr>format = ''csv'', includeMessages = True, includeSources = True,
      includeEntities = True, includeMetadata = True, dateRange = ''all'',
      selectedSessions = [''1'', ''2'']\<rparr>"

text \<open>
  A store that holds one session with one message, the array of sessions at reference
  0, and options that leave the sources out.
\<close>

definition example_store :: store where
  "example_store =
     [ArrayObj [1], SessionObj ''1'' ''Weather'' 2 1 1, ArrayObj [3], MessageObj question]"

definition json_no_sources :: export_options where
  "json_no_sources =
     \<lparr>format = ''json'', includeMessages = True, includeSources = False,
      includeEntities = True, includeMetadata = True, dateRange = ''all'',
      selectedSessions = [''1'']\<rparr>"

text \<open>The content of the file an export hands over (empty when the export throws).\<close>

definition export_content :: "js_error + download \<Rightarrow> string" where
  "export_content r = (case r of Inr d \<Rightarrow> content d | Inl e \<Rightarrow> [])"

section \<open>A concrete platform for the examples\<close>

text \<open>
  \<^verbatim>\<open>toISOString\<close> and the reading of its format by \<^verbatim>\<open>new Date\<close>, computed, and the
  decimal form of a number with at most two decimals. They instantiate the platform
  where a property or an example needs a concrete text.

  A time value is split into days since 1970-01-01 and milliseconds of the day. The
  days are counted from 0000-03-01 in eras of 400 years (146097 days), centuries
  (36524 days, the fourth one day longer), cycles of four years (1461 days) and years
  that begin on 1 March, so that the leap day is the last day of its year;
  \<open>days_from_civil\<close> is the count in the other direction. A year from 0 to 9999 is
  written with four digits, any other with a sign and six.
\<close>

definition pad :: "nat \<Rightarrow> nat \<Rightarrow> string" where
  "pad width n = replicate (width - length (dec_digits n)) (CHR ''0'') @ dec_digits n"

definition civil_from_days :: "int \<Rightarrow> int \<times> int \<times> int" where
  "civil_from_days days =
     (let z = days + 719468;
          era = z div 146097;
          doe = z mod 146097;
          c = min 3 (doe div 36524);
          doc = doe - c * 36524;
          q = doc div 1461;
          doq = doc mod 1461;
          yq = min 3 (doq div 365);
          doy = doq - yq * 365;
          y = era * 400 + c * 100 + q * 4 + yq;
          mp = (5 * doy + 2) div 153;
          d = doy - (153 * mp + 2) div 5 + 1;
          m = (if mp < 10 then mp + 3 else mp - 9)
      in (if m \<le> 2 then y + 1 else y, m, d))"

definition days_from_civil :: "int \<Rightarrow> int \<Rightarrow> int \<Rightarrow> int" where
  "days_from_civil y0 m d =
     (let y = (if m \<le> 2 then y0 - 1 else y0);
          era = y div 400;
          yoe = y - era * 400;
          doy = (153 * (if m > 2 then m - 3 else m + 9) + 2) div 5 + d - 1;
          doe = yoe * 365 + yoe div 4 - yoe div 100 + doy
      in era * 146097 + doe - 719468)"

definition year_str :: "int \<Rightarrow> string" where
  "year_str y =
     (if 0 \<le> y \<and> y \<le> 9999 then pad 4 (nat y)
      else (if y < 0 then ''-'' else ''+'') @ pad 6 (nat \<bar>y\<bar>))"

definition iso_of_time :: "int \<Rightarrow> string" where
  "iso_of_time t =
     (let days = t div 86400000;
          ms = t mod 86400000;
          (y, m, d) = civil_from_days days
      in year_str y @ ''-'' @ pad 2 (nat m) @ ''-'' @ pad 2 (nat d) @ ''T'' @
         pad 2 (nat (ms div 3600000)) @ '':'' @ pad 2 (nat (ms div 60000 mod 60)) @ '':'' @
         pad 2 (nat (ms div 1000 mod 60)) @ ''.'' @ pad 3 (nat (ms mod 1000)) @ ''Z'')"

definition digit_val :: "char \<Rightarrow> int" where
  "digit_val c =
     (case map_of (zip ''0123456789'' [0, 1, 2, 3, 4, 5, 6, 7, 8, 9]) c of
        Some v \<Rightarrow> v
      | None \<Rightarrow> 0)"

definition dec_val :: "string \<Rightarrow> int" where
  "dec_val s = foldl (\<lambda>a c. 10 * a + digit_val c) 0 s"

definition time_of_iso :: "string \<Rightarrow> int" where
  "time_of_iso s =
     (let (sign, ys, rest) =
            (case s of
               c # cs \<Rightarrow> if c = CHR ''-'' then (- 1, take 6 cs, drop 6 cs)
                         else if c = CHR ''+'' then (1, take 6 cs, drop 6 cs)
                         else (1, take 4 s, drop 4 s)
             | [] \<Rightarrow> (1, [], []));
          y = sign * dec_val ys;
          m = dec_val (take 2 (drop 1 rest));
          d = dec_val (take 2 (drop 4 rest));
          hh = dec_val (take 2 (drop 7 rest));
          mm = dec_val (take 2 (drop 10 rest));
          ss = dec_val (take 2 (drop 13 rest));
          ms = dec_val (take 3 (drop 16 rest))
      in days_from_civil y m d * 86400000 + hh * 3600000 + mm * 60000 + ss * 1000 + ms)"

definition hundredths :: "rat \<Rightarrow> string" where
  "hundredths r =
     (let h = \<lfloor>\<bar>r\<bar> * 100\<rfloor>;
          whole = dec_digits (nat (h div 100));
          frac = nat (h mod 100)
      in (if r < 0 then ''-'' else []) @ whole @
         (if frac = 0 then []
          else if frac mod 10 = 0 then ''.'' @ dec_digits (frac div 10)
          else ''.'' @ pad 2 frac))"

definition with_platform :: "js_env \<Rightarrow> js_env" where
  "with_platform env =
     env\<lparr>toISOString := iso_of_time, newDate := time_of_iso, numToString := hundredths\<rparr>"

text \<open>
  \<^verbatim>\<open>JSON.stringify(value, null, 2)\<close>, computed on the object the export dumps. The
  object is first read as a tree: a property that is \<^verbatim>\<open>undefined\<close> is left out, a
  \<^verbatim>\<open>Date\<close> is the string its \<^verbatim>\<open>toJSON\<close> gives, a number is its decimal text, and the
  properties of an object are in the order in which the code creates them. The tree is
  then written with two spaces for each level, one element or property on a line, an
  empty array as \<^verbatim>\<open>[]\<close>; in a string the quote, the backslash and the control
  characters are escaped.
\<close>

datatype json =
    JString string
  | JNumber string
  | JBool bool
  | JArray "json list"
  | JObject "(string \<times> json) list"

definition hex_digit :: "nat \<Rightarrow> char" where
  "hex_digit d = ''0123456789abcdef'' ! d"

definition json_escape :: "char \<Rightarrow> string" where
  "json_escape c =
     (if c = DQ then [CHR 0x5C, DQ]
      else if c = CHR 0x5C then [CHR 0x5C, CHR 0x5C]
      else if c = CHR 0x08 then [CHR 0x5C, CHR ''b'']
      else if c = CHR 0x0C then [CHR 0x5C, CHR ''f'']
      else if c = CHR 0x0A then [CHR 0x5C, CHR ''n'']
      else if c = CHR 0x0D then [CHR 0x5C, CHR ''r'']
      else if c = CHR 0x09 then [CHR 0x5C, CHR ''t'']
      else if (of_char c :: nat) < 32
      then [CHR 0x5C, CHR ''u'', CHR ''0'', CHR ''0'',
            hex_digit (of_char c div 16), hex_digit (of_char c mod 16)]
      else [c])"

definition json_quote :: "string \<Rightarrow> string" where
  "json_quote s = [DQ] @ concat (map json_escape s) @ [DQ]"

definition spaces :: "nat \<Rightarrow> string" where
  "spaces n = replicate n (CHR '' '')"

fun render :: "nat \<Rightarrow> json \<Rightarrow> string" where
  "render ind (JString s) = json_quote s"
| "render ind (JNumber n) = n"
| "render ind (JBool b) = (if b then ''true'' else ''false'')"
| "render ind (JArray xs) =
     (if xs = [] then ''[]''
      else ''['' @ [LF] @
           join ('','' @ [LF]) (map (\<lambda>x. spaces (ind + 2) @ render (ind + 2) x) xs) @
           [LF] @ spaces ind @ '']'')"
| "render ind (JObject kvs) =
     (if kvs = [] then ''{}''
      else ''{'' @ [LF] @
           join ('','' @ [LF])
             (map (\<lambda>(k, v). spaces (ind + 2) @ json_quote k @ '': '' @ render (ind + 2) v) kvs) @
           [LF] @ spaces ind @ ''}'')"

definition property :: "string \<Rightarrow> json option \<Rightarrow> (string \<times> json) list" where
  "property k v = (case v of None \<Rightarrow> [] | Some j \<Rightarrow> [(k, j)])"

definition source_json :: "(rat \<Rightarrow> string) \<Rightarrow> source \<Rightarrow> json" where
  "source_json num s =
     JObject [(''url'', JString (src_url s)), (''title'', JString (src_title s)),
              (''content'', JString (src_content s)),
              (''relevance'', JNumber (num (src_relevance s)))]"

definition entity_json :: "(rat \<Rightarrow> string) \<Rightarrow> entity \<Rightarrow> json" where
  "entity_json num e =
     JObject ([(''text'', JString (ent_text e)), (''label'', JString (ent_label e)),
               (''confidence'', JNumber (num (ent_confidence e)))] @
              property ''start'' (map_option (\<lambda>i. JNumber (int_toString i)) (ent_start e)) @
              property ''end'' (map_option (\<lambda>i. JNumber (int_toString i)) (ent_end e)))"

definition message_json :: "(rat \<Rightarrow> string) \<Rightarrow> (int \<Rightarrow> string) \<Rightarrow> message \<Rightarrow> json" where
  "message_json num toISO m =
     JObject ([(''id'', JString (m_id m))] @
              property ''text'' (map_option JString (m_text m)) @
              [(''sender'', JString (sender_str (m_sender m))),
               (''timestamp'', JString (toISO (m_timestamp m)))] @
              property ''sources''
                (map_option (\<lambda>xs. JArray (map (source_json num) xs)) (m_sources m)) @
              property ''entities''
                (map_option (\<lambda>xs. JArray (map (entity_json num) xs)) (m_entities m)) @
              property ''confidence'' (map_option (\<lambda>r. JNumber (num r)) (m_confidence m)))"

definition session_json :: "(rat \<Rightarrow> string) \<Rightarrow> (int \<Rightarrow> string) \<Rightarrow> session \<Rightarrow> json" where
  "session_json num toISO s =
     JObject [(''id'', JString (s_id s)), (''title'', JString (s_title s)),
              (''messages'', JArray (map (message_json num toISO) (s_messages s))),
              (''createdAt'', JString (toISO (s_createdAt s))),
              (''updatedAt'', JString (toISO (s_updatedAt s)))]"

definition options_json :: "export_options \<Rightarrow> json" where
  "options_json opts =
     JObject [(''format'', JString (format opts)),
              (''includeMessages'', JBool (includeMessages opts)),
              (''includeSources'', JBool (includeSources opts)),
              (''includeEntities'', JBool (includeEntities opts)),
              (''includeMetadata'', JBool (includeMetadata opts)),
              (''dateRange'', JString (dateRange opts)),
              (''selectedSessions'', JArray (map JString (selectedSessions opts)))]"

definition export_json :: "(rat \<Rightarrow> string) \<Rightarrow> (int \<Rightarrow> string) \<Rightarrow> export_data \<Rightarrow> json" where
  "export_json num toISO ed =
     JObject [(''exportedAt'', JString (exportedAt ed)),
              (''options'', options_json (options ed)),
              (''sessions'', JArray (map (session_json num toISO) (ed_sessions ed)))]"

definition json_text :: "(rat \<Rightarrow> string) \<Rightarrow> (int \<Rightarrow> string) \<Rightarrow> export_data \<Rightarrow> string" where
  "json_text num toISO ed = render 0 (export_json num toISO ed)"

definition with_json :: "js_env \<Rightarrow> js_env" where
  "with_json env = env\<lparr>JSON_stringify := json_text (numToString env) (toISOString env)\<rparr>"

text \<open>
  Options that select the second of the two sessions, with the format \<open>f\<close>, and the
  text of the file a JSON dump of that selection gives at 12:00 on 2024-01-15: the
  format that was asked for is in its fourth line.
\<close>

definition ocean_options :: "string \<Rightarrow> export_options" where
  "ocean_options f =
     \<lparr>format = f, includeMessages = True, includeSources = True,
      includeEntities = True, includeMetadata = True, dateRange = ''all'',
      selectedSessions = [''2'']\<rparr>"

definition ocean_dump :: "string \<Rightarrow> string" where
  \<open>ocean_dump f =
     join [LF]
       [''{'',
        ''  "exportedAt": "2024-01-15T12:00:00.000Z",'',
        ''  "options": {'',
        ''    "format": "'' @ f @ ''",'',
        ''    "includeMessages": true,'',
        ''    "includeSources": true,'',
        ''    "includeEntities": true,'',
        ''    "includeMetadata": true,'',
        ''    "dateRange": "all",'',
        ''    "selectedSessions": ['',
        ''      "2"'',
        ''    ]'',
        ''  },'',
        ''  "sessions": ['',
        ''    {'',
        ''      "id": "2",'',
        ''      "title": "Ocean",'',
        ''      "messages": ['',
        ''        {'',
        ''          "id": "20",'',
        ''          "text": "Hello",'',
        ''          "sender": "user",'',
        ''          "timestamp": "2024-01-15T10:05:00.000Z"'',
        ''        }'',
        ''      ],'',
        ''      "createdAt": "2024-01-15T10:05:00.000Z",'',
        ''      "updatedAt": "2024-01-15T10:05:00.000Z"'',
        ''    }'',
        ''  ]'',
        ''}'']\<close>

section \<open>The fallback generator\<close>

text \<open>The model of \<^verbatim>\<open>includes\<close> is the contiguous-sublist relation of the library.\<close>

lemma str_includes_sublist: "str_includes s sub \<longleftrightarrow> sublist sub s"
proof (induction s)
  case Nil
  then show ?case by auto
next
  case (Cons c cs)
  have "sublist sub (c # cs) \<longleftrightarrow> prefix sub (c # cs) \<or> sublist sub cs"
    by (rule sublist_Cons_right)
  moreover have "prefix sub (c # cs) \<longleftrightarrow> take (length sub) (c # cs) = sub"
    by (metis append_eq_conv_conj prefix_def append_take_drop_id)
  ultimately show ?case using Cons.IH by simp
qed

lemma mock_loop_find:
  "mock_loop lq table = find (\<lambda>m. str_includes lq (mock_query m)) table"
  by (induction table) simp_all

text \<open>
  C3. For every query, \<^verbatim>\<open>getMockResponse\<close> returns the first entry of the table whose
  keyword the lowercased query contains, and otherwise the generic answer, with
  confidence 0.75 and an empty entity list. The lowercase form of
  \<^verbatim>\<open>What is INSAT-3D?\<close> contains \<^verbatim>\<open>insat\<close>, so that query gets the first entry: the
  INSAT body, with confidence 0.92.
\<close>

theorem getMockResponse_table:
  "getMockResponse q =
     (case find (\<lambda>m. str_includes (toLowerCase q) (mock_query m)) mockBotResponses of
        Some m \<Rightarrow> m
      | None \<Rightarrow> defaultResponse q)
   \<and> r_confidence (defaultResponse q) = Some 0.75
   \<and> r_entities (defaultResponse q) = Some []
   \<and> r_response (defaultResponse q) = Some (default_body q)
   \<and> str_includes (toLowerCase ''What is INSAT-3D?'') ''insat''
   \<and> getMockResponse ''What is INSAT-3D?'' = mockBotResponses ! 0
   \<and> r_response (getMockResponse ''What is INSAT-3D?'') = Some insat_body
   \<and> r_confidence (getMockResponse ''What is INSAT-3D?'') = Some 0.92"
proof -
  have lower: "toLowerCase ''What is INSAT-3D?'' = ''what is insat-3d?''"
    by (simp add: toLowerCase_def toLowerChar_def)
  have inc: "str_includes ''what is insat-3d?'' ''insat''"
    by simp
  have hit: "getMockResponse ''What is INSAT-3D?'' = mockBotResponses ! 0"
    unfolding getMockResponse_def Let_def lower
    by (simp add: mockBotResponses_def mock_query_def)
  have gen: "getMockResponse q =
     (case find (\<lambda>m. str_includes (toLowerCase q) (mock_query m)) mockBotResponses of
        Some m \<Rightarrow> m
      | None \<Rightarrow> defaultResponse q)"
    by (simp add: getMockResponse_def mock_loop_find)
  show ?thesis
    using gen inc hit by (simp add: lower defaultResponse_def mockBotResponses_def)
qed

section \<open>Sending a message\<close>








section \<open>The resolver\<close>

text \<open>
  C2. Resolution always settles with a response. When the remote call fails (the
  request is rejected, the status is not ok, or the body is not JSON) the error is
  dropped and the response is the mock response for the text; when it succeeds the
  response is the body. The only error the rest of \<^verbatim>\<open>sendMessage\<close> can then meet is the
  \<^verbatim>\<open>TypeError\<close> of reading a property of a \<^verbatim>\<open>null\<close> body, never an error of the call.
\<close>

theorem resolve_never_fails:
  "(\<exists>response. resolve fetch text sid loc = Inr response)
   \<and> (\<forall>e. apiService_sendMessage fetch
              \<lparr>q_query = text, q_sessionId = Some sid, q_location = loc\<rparr> = Inl e \<longrightarrow>
            resolve fetch text sid loc = Inr (BodyObject (getMockResponse text)))
   \<and> (\<forall>v. apiService_sendMessage fetch
              \<lparr>q_query = text, q_sessionId = Some sid, q_location = loc\<rparr> = Inr v \<longrightarrow>
            resolve fetch text sid loc = Inr v)
   \<and> (\<forall>e. sendMessage_try fetch now sid text loc = Inl e \<longrightarrow> e = TypeError)"
proof -
  let ?call = "apiService_sendMessage fetch
                 \<lparr>q_query = text, q_sessionId = Some sid, q_location = loc\<rparr>"
  have r: "resolve fetch text sid loc =
             (case ?call of Inl e \<Rightarrow> Inr (BodyObject (getMockResponse text)) | Inr v \<Rightarrow> Inr v)"
    by (simp add: resolve_def try_catch_def)
  have ex: "\<exists>response. resolve fetch text sid loc = Inr response"
    unfolding r by (cases ?call) simp_all
  have t: "\<forall>e. sendMessage_try fetch now sid text loc = Inl e \<longrightarrow> e = TypeError"
    using ex by (auto simp: sendMessage_try_def botMessage_def split: sum.splits api_body.splits)
  show ?thesis using ex t by (simp add: r)
qed

text \<open>An instance for each failure of the call, and one for the \<^verbatim>\<open>null\<close> body.\<close>

theorem resolve_never_fails_witness:
  "apiService_sendMessage (\<lambda>req. Responded False ''Bad Gateway'' None)
       \<lparr>q_query = ''hello'', q_sessionId = Some ''1'', q_location = None\<rparr> =
     Inl (ApiError ''API Error: Bad Gateway'')
   \<and> resolve (\<lambda>req. Responded False ''Bad Gateway'' None) ''hello'' ''1'' None =
       Inr (BodyObject (getMockResponse ''hello''))
   \<and> resolve (\<lambda>req. Rejected) ''hello'' ''1'' None = Inr (BodyObject (getMockResponse ''hello''))
   \<and> resolve (\<lambda>req. Responded True ''OK'' None) ''hello'' ''1'' None =
       Inr (BodyObject (getMockResponse ''hello''))
   \<and> sendMessage_try (\<lambda>req. Responded True ''OK'' (Some BodyNull)) 5 ''1'' ''hello'' None =
       Inl TypeError"
  using resolve_never_fails
    [of "\<lambda>req. Responded False ''Bad Gateway'' None" "''hello''" "''1''" None 5]
  by (simp add: apiService_sendMessage_def request_def resolve_def try_catch_def
      sendMessage_try_def botMessage_def)

section \<open>The session calls\<close>

lemma rename_ids: "map s_id (sessions (renameSession sid t now st)) = map s_id (sessions st)"
  by (simp add: renameSession_def)

lemma pointer_valid_ids:
  "pointer_valid st \<longleftrightarrow>
     (case currentSessionId st of None \<Rightarrow> True | Some cur \<Rightarrow> cur \<in> set (map s_id (sessions st)))"
  by (simp add: pointer_valid_def split: option.splits)

lemma pointer_valid_run:
  "no_delete_of_made made cs \<Longrightarrow>
   (case currentSessionId st of
      None \<Rightarrow> True
    | Some cur \<Rightarrow> cur \<in> set (map s_id (sessions st)) \<and> (cur \<in> set made \<or> captured = Some cur)) \<Longrightarrow>
   pointer_valid (run_calls captured cs st)"
proof (induction made cs arbitrary: st rule: no_delete_of_made.induct)
  case (1 made)
  then show ?case
    by (simp add: run_calls_def pointer_valid_ids split: option.splits)
next
  case (2 made now cs)
  have "pointer_valid (run_calls captured cs (snd (createNewSession now st)))"
  proof (rule "2.IH")
    show "no_delete_of_made (int_toString now # made) cs"
      using "2.prems"(1) by simp
    show "case currentSessionId (snd (createNewSession now st)) of
            None \<Rightarrow> True
          | Some cur \<Rightarrow> cur \<in> set (map s_id (sessions (snd (createNewSession now st))))
                        \<and> (cur \<in> set (int_toString now # made) \<or> captured = Some cur)"
      by (simp add: createNewSession_def Let_def)
  qed
  then show ?case by (simp add: run_calls_def)
next
  case (3 made sid cs)
  have fresh: "sid \<notin> set made" and rest: "no_delete_of_made made cs"
    using "3.prems"(1) by simp_all
  have "pointer_valid (run_calls captured cs (deleteSession captured sid st))"
  proof (rule "3.IH" [OF rest])
    show "case currentSessionId (deleteSession captured sid st) of
            None \<Rightarrow> True
          | Some cur \<Rightarrow> cur \<in> set (map s_id (sessions (deleteSession captured sid st)))
                        \<and> (cur \<in> set made \<or> captured = Some cur)"
    proof (cases "captured = Some sid")
      case True
      then show ?thesis by (simp add: deleteSession_def)
    next
      case False
      show ?thesis
      proof (cases "currentSessionId st")
        case None
        then show ?thesis by (simp add: deleteSession_def)
      next
        case (Some cur)
        have inv: "cur \<in> set (map s_id (sessions st))" "cur \<in> set made \<or> captured = Some cur"
          using "3.prems"(2) Some by simp_all
        have "cur \<noteq> sid"
          using inv(2) fresh False by auto
        then show ?thesis
          using inv Some False by (auto simp: deleteSession_def)
      qed
    qed
  qed
  then show ?case by (simp add: run_calls_def)
next
  case (4 made sid title now cs)
  have "pointer_valid (run_calls captured cs (renameSession sid title now st))"
  proof (rule "4.IH")
    show "no_delete_of_made made cs"
      using "4.prems"(1) by simp
    have cur: "currentSessionId (renameSession sid title now st) = currentSessionId st"
      by (simp add: renameSession_def)
    show "case currentSessionId (renameSession sid title now st) of
            None \<Rightarrow> True
          | Some cur \<Rightarrow> cur \<in> set (map s_id (sessions (renameSession sid title now st)))
                        \<and> (cur \<in> set made \<or> captured = Some cur)"
      unfolding cur rename_ids using "4.prems"(2) .
  qed
  then show ?case by (simp add: run_calls_def)
qed

lemma pointer_valid_event:
  assumes "pointer_valid st" and "no_delete_of_made [] cs"
  shows "pointer_valid (event cs st)"
  unfolding event_def
  using assms(2)
proof (rule pointer_valid_run)
  show "case currentSessionId st of
          None \<Rightarrow> True
        | Some cur \<Rightarrow> cur \<in> set (map s_id (sessions st))
                      \<and> (cur \<in> set [] \<or> currentSessionId st = Some cur)"
    using assms(1) by (simp add: pointer_valid_ids split: option.splits)
qed

lemma pointer_valid_events:
  "pointer_valid st \<Longrightarrow> list_all (no_delete_of_made []) es \<Longrightarrow>
   pointer_valid (run_events es st)"
  unfolding run_events_def
  by (induction es arbitrary: st) (simp_all add: pointer_valid_event)

lemma single_calls: "list_all (no_delete_of_made []) (map (\<lambda>c. [c]) cs)"
proof (induction cs)
  case Nil
  then show ?case by simp
next
  case (Cons c cs)
  then show ?case by (cases c) simp_all
qed

text \<open>
  C4, as amended. The calls of one event run on the callbacks of one render, and
  \<^verbatim>\<open>deleteSession\<close> compares with the pointer that render captured. After any finite
  sequence of events from the empty collection (whatever \<^verbatim>\<open>localStorage\<close> holds), each a
  finite sequence of \<^verbatim>\<open>createNewSession\<close>, \<^verbatim>\<open>deleteSession\<close> and \<^verbatim>\<open>renameSession\<close> calls
  of which none deletes a session that an earlier call of the same event created, the
  pointer is unset or is the id of a session of the collection. So it is after any
  sequence of calls made one per event, as the sidebar makes them. And an event that
  deletes the current session unsets the pointer.
\<close>

theorem pointer_valid_after_events:
  "(list_all (no_delete_of_made []) es \<longrightarrow> pointer_valid (run_events es (initial_state blob)))
   \<and> pointer_valid (run_events (map (\<lambda>c. [c]) cs) (initial_state blob))
   \<and> (currentSessionId st = Some sid \<longrightarrow>
        currentSessionId (event [DeleteSession sid] st) = None)"
proof -
  have start: "pointer_valid (initial_state blob)"
    by (simp add: pointer_valid_def initial_state_def)
  have "currentSessionId st = Some sid \<longrightarrow> currentSessionId (event [DeleteSession sid] st) = None"
    by (simp add: event_def run_calls_def deleteSession_def)
  then show ?thesis
    using pointer_valid_events [OF start] single_calls by blast
qed

text \<open>
  An instance: one event creates two sessions and renames the older, the next deletes
  the current one, which leaves the pointer unset and the older session in the
  collection.
\<close>

theorem pointer_valid_after_events_witness:
  "list_all (no_delete_of_made [])
     [[CreateSession 1, CreateSession 2, RenameSession ''1'' ''Ocean'' 3], [DeleteSession ''2'']]
   \<and> pointer_valid
       (run_events
          [[CreateSession 1, CreateSession 2, RenameSession ''1'' ''Ocean'' 3], [DeleteSession ''2'']]
          (initial_state None))
   \<and> currentSessionId
       (run_events [[CreateSession 1, CreateSession 2, RenameSession ''1'' ''Ocean'' 3]]
          (initial_state None)) = Some ''2''
   \<and> currentSessionId
       (event [DeleteSession ''2'']
          (run_events [[CreateSession 1, CreateSession 2, RenameSession ''1'' ''Ocean'' 3]]
             (initial_state None))) = None
   \<and> map s_id
       (sessions
          (run_events
             [[CreateSession 1, CreateSession 2, RenameSession ''1'' ''Ocean'' 3], [DeleteSession ''2'']]
             (initial_state None))) = [''1'']"
  using pointer_valid_after_events
    [of "[[CreateSession 1, CreateSession 2, RenameSession ''1'' ''Ocean'' 3], [DeleteSession ''2'']]"
        None "[]"
        "run_events [[CreateSession 1, CreateSession 2, RenameSession ''1'' ''Ocean'' 3]]
           (initial_state None)"
        "''2''"]
  by (simp add: run_events_def event_def run_calls_def createNewSession_def renameSession_def
      initial_state_def deleteSession_def int_toString_def dec_digits.simps digit_char_def Let_def)

text \<open>
  C4 as stated fails. One event creates a session and deletes it: the render the two
  calls run on has no current session, so \<^verbatim>\<open>deleteSession\<close> leaves the pointer alone, and
  the pointer that \<^verbatim>\<open>createNewSession\<close> has set names a session that is gone.
\<close>

theorem delete_in_creating_event_counterexample:
  "sessions (run_events [[CreateSession 1, DeleteSession ''1'']] (initial_state None)) = []
   \<and> currentSessionId (run_events [[CreateSession 1, DeleteSession ''1'']] (initial_state None)) =
       Some ''1''
   \<and> \<not> pointer_valid (run_events [[CreateSession 1, DeleteSession ''1'']] (initial_state None))"
  by (simp add: run_events_def event_def run_calls_def createNewSession_def initial_state_def
      deleteSession_def pointer_valid_def int_toString_def dec_digits.simps digit_char_def Let_def)

lemma trim_empty_iff: "trim t = [] \<longleftrightarrow> (\<forall>c \<in> set t. isWhiteSpace c)"
proof -
  have "trim t = [] \<longleftrightarrow> dropWhile isWhiteSpace (rev (dropWhile isWhiteSpace t)) = []"
    by (simp add: trim_def)
  also have "\<dots> \<longleftrightarrow> (\<forall>c \<in> set (dropWhile isWhiteSpace t). isWhiteSpace c)"
    by (simp add: dropWhile_eq_Nil_conv)
  also have "\<dots> \<longleftrightarrow> dropWhile isWhiteSpace t = []"
  proof
    assume a: "\<forall>c \<in> set (dropWhile isWhiteSpace t). isWhiteSpace c"
    show "dropWhile isWhiteSpace t = []"
    proof (rule ccontr)
      assume "dropWhile isWhiteSpace t \<noteq> []"
      then have "\<not> isWhiteSpace (hd (dropWhile isWhiteSpace t))"
        by (rule hd_dropWhile)
      moreover have "hd (dropWhile isWhiteSpace t) \<in> set (dropWhile isWhiteSpace t)"
        using \<open>dropWhile isWhiteSpace t \<noteq> []\<close> by simp
      ultimately show False using a by blast
    qed
  next
    assume "dropWhile isWhiteSpace t = []"
    then show "\<forall>c \<in> set (dropWhile isWhiteSpace t). isWhiteSpace c"
      by (auto dest: set_dropWhileD)
  qed
  also have "\<dots> \<longleftrightarrow> (\<forall>c \<in> set t. isWhiteSpace c)"
    by (simp add: dropWhile_eq_Nil_conv)
  finally show ?thesis .
qed

text \<open>
  C5, as amended. \<^verbatim>\<open>renameSession(id, title)\<close> of the hook replaces the title of every
  session with that id by \<^verbatim>\<open>title\<close>, whatever it is, and sets \<^verbatim>\<open>updatedAt\<close> to the
  instant of the call; the other sessions and all ids are unchanged. The guard is in the
  side bar: \<^verbatim>\<open>handleFinishEdit\<close> leaves the sessions as they are when the edited title is
  empty or white space only, and otherwise calls \<^verbatim>\<open>renameSession\<close> with the trimmed title.
\<close>

theorem rename_guard_in_sidebar:
  "map s_id (sessions (renameSession sid title now st)) = map s_id (sessions st)
   \<and> (\<forall>s \<in> set (sessions (renameSession sid title now st)).
         if s_id s = sid then s_title s = title \<and> s_updatedAt s = now
         else s \<in> set (sessions st))
   \<and> ((\<forall>c \<in> set (editingTitle sb). isWhiteSpace c) \<longrightarrow>
         snd (handleFinishEdit sid now (sb, st)) = st)
   \<and> (\<not> (\<forall>c \<in> set (editingTitle sb). isWhiteSpace c) \<longrightarrow>
         snd (handleFinishEdit sid now (sb, st)) =
           renameSession sid (trim (editingTitle sb)) now st)"
proof -
  have ids: "map s_id (sessions (renameSession sid title now st)) = map s_id (sessions st)"
    by (simp add: renameSession_def)
  have each: "\<forall>s \<in> set (sessions (renameSession sid title now st)).
         if s_id s = sid then s_title s = title \<and> s_updatedAt s = now
         else s \<in> set (sessions st)"
    by (auto simp: renameSession_def)
  have noop: "(\<forall>c \<in> set (editingTitle sb). isWhiteSpace c) \<longrightarrow>
         snd (handleFinishEdit sid now (sb, st)) = st"
    by (simp add: handleFinishEdit_def trim_empty_iff [symmetric])
  have ren: "\<not> (\<forall>c \<in> set (editingTitle sb). isWhiteSpace c) \<longrightarrow>
         snd (handleFinishEdit sid now (sb, st)) =
           renameSession sid (trim (editingTitle sb)) now st"
    by (simp add: handleFinishEdit_def trim_empty_iff [symmetric])
  show ?thesis using ids each noop ren by blast
qed

text \<open>An instance: a title of three spaces changes nothing; a padded title is trimmed.\<close>

theorem rename_guard_in_sidebar_witness:
  "snd (handleFinishEdit ''1'' 5
          (\<lparr>editingSessionId = Some ''1'', editingTitle = ''   ''\<rparr>, example_state)) =
     example_state
   \<and> sessions (snd (handleFinishEdit ''1'' 5
          (\<lparr>editingSessionId = Some ''1'', editingTitle = '' Ocean ''\<rparr>, example_state))) =
       [example_session\<lparr>s_title := ''Ocean'', s_updatedAt := 5\<rparr>]"
  using rename_guard_in_sidebar
    [of "''1''" "''Ocean''" 5 example_state
        "\<lparr>editingSessionId = Some ''1'', editingTitle = ''   ''\<rparr>"]
  by (simp add: handleFinishEdit_def trim_def isWhiteSpace_def renameSession_def
      example_state_def example_session_def)

text \<open>
  C5 as stated fails on the hook's \<^verbatim>\<open>renameSession\<close>: called with a title of three
  spaces, it stores that title and moves \<^verbatim>\<open>updatedAt\<close>.
\<close>

theorem rename_whitespace_counterexample:
  "trim ''   '' = []
   \<and> sessions (renameSession ''1'' ''   '' 5 example_state) =
       [example_session\<lparr>s_title := ''   '', s_updatedAt := 5\<rparr>]
   \<and> sessions (renameSession ''1'' ''   '' 5 example_state) \<noteq> sessions example_state"
  by (simp add: trim_def isWhiteSpace_def renameSession_def example_state_def
      example_session_def)

section \<open>Evaluating the concrete platform\<close>

subsection \<open>The ISO text of a time value is read back as that time value\<close>

lemma civil_facts:
  assumes "civil_from_days z = (y', m', d')"
  shows "days_from_civil y' m' d' = z"
    and "1 \<le> m'" and "m' \<le> 12" and "1 \<le> d'" and "d' \<le> 31"
    and "(z + 719468) div 146097 * 400 \<le> y'"
    and "y' \<le> (z + 719468) div 146097 * 400 + 400"
proof -
  define era where "era = (z + 719468) div 146097"
  define doe where "doe = (z + 719468) mod 146097"
  define c where "c = min 3 (doe div 36524)"
  define doc where "doc = doe - c * 36524"
  define q where "q = doc div 1461"
  define doq where "doq = doc mod 1461"
  define yq where "yq = min 3 (doq div 365)"
  define doy where "doy = doq - yq * 365"
  define yoe where "yoe = c * 100 + q * 4 + yq"
  define mp where "mp = (5 * doy + 2) div 153"
  define d where "d = doy - (153 * mp + 2) div 5 + 1"
  define m where "m = (if mp < 10 then mp + 3 else mp - 9)"
  define y0 where "y0 = era * 400 + c * 100 + q * 4 + yq"
  define y where "y = (if m \<le> 2 then y0 + 1 else y0)"
  have civ: "civil_from_days z = (y, m, d)"
    unfolding civil_from_days_def Let_def y_def y0_def m_def d_def mp_def doy_def yq_def
      doq_def q_def doc_def c_def doe_def era_def
    by (rule refl)
  have y0: "y0 = era * 400 + yoe"
    unfolding y0_def yoe_def by simp
  have z: "z + 719468 = era * 146097 + doe"
    unfolding era_def doe_def by simp
  have doe: "0 \<le> doe" "doe \<le> 146096"
    unfolding doe_def by simp_all
  have c: "0 \<le> c" "c \<le> 3"
    unfolding c_def using doe by simp_all
  have doc: "0 \<le> doc" "doc \<le> 36524"
    unfolding doc_def c_def using doe by (simp_all add: min_def) linarith+
  have q: "0 \<le> q" "q \<le> 24"
    unfolding q_def using doc by simp_all
  have docq: "doc = q * 1461 + doq"
    unfolding q_def doq_def by simp
  have doq: "0 \<le> doq" "doq \<le> 1460"
    unfolding doq_def by simp_all
  have yq: "0 \<le> yq" "yq \<le> 3"
    unfolding yq_def using doq by simp_all
  have doy: "0 \<le> doy" "doy \<le> 365"
    unfolding doy_def yq_def using doq by (simp_all add: min_def) linarith+
  have yoe: "0 \<le> yoe" "yoe \<le> 399"
    unfolding yoe_def using c q yq by linarith+
  have yoe4: "yoe div 4 = 25 * c + q"
    unfolding yoe_def using yq by linarith
  have yoe100: "yoe div 100 = c"
    unfolding yoe_def using q yq by linarith
  have mp: "0 \<le> mp" "mp \<le> 11"
    unfolding mp_def using doy by linarith+
  have back_mp: "(if m > 2 then m - 3 else m + 9) = mp"
    unfolding m_def using mp by simp
  have back_y: "(if m \<le> 2 then y - 1 else y) = era * 400 + yoe"
    unfolding y_def y0 by simp
  have era: "(era * 400 + yoe) div 400 = era"
    using yoe by simp
  have "days_from_civil y m d =
          era * 146097 + (yoe * 365 + yoe div 4 - yoe div 100 + doy) - 719468"
    unfolding days_from_civil_def Let_def back_mp back_y era d_def
    by simp
  also have "yoe * 365 + yoe div 4 - yoe div 100 + doy = doe"
    unfolding yoe4 yoe100 using docq
    by (simp add: yoe_def doy_def doc_def algebra_simps)
  finally have "days_from_civil y m d = z"
    using z by simp
  moreover have "1 \<le> m" "m \<le> 12"
    unfolding m_def using mp by simp_all
  moreover have "1 \<le> d" "d \<le> 31"
    unfolding d_def mp_def using doy by linarith+
  moreover have "era * 400 \<le> y" "y \<le> era * 400 + 400"
    unfolding y_def y0 using yoe by simp_all
  moreover have "y' = y" "m' = m" "d' = d"
    using assms civ by simp_all
  ultimately show "days_from_civil y' m' d' = z"
    and "1 \<le> m'" and "m' \<le> 12" and "1 \<le> d'" and "d' \<le> 31"
    and "(z + 719468) div 146097 * 400 \<le> y'"
    and "y' \<le> (z + 719468) div 146097 * 400 + 400"
    by (simp_all add: era_def)
qed

lemma digit_cases: "d < 10 \<Longrightarrow> d \<in> {0, 1, 2, 3, 4, 5, 6, 7, 8, 9::nat}"
  by auto

lemma digit_val_char: "d < 10 \<Longrightarrow> digit_val (digit_char d) = int d"
  using digit_cases [of d] by (auto simp: digit_char_def digit_val_def)

lemma digit_char_not_sign: "d < 10 \<Longrightarrow> digit_char d \<noteq> CHR ''-'' \<and> digit_char d \<noteq> CHR ''+''"
  using digit_cases [of d] by (auto simp: digit_char_def)

lemma dec_val_snoc: "dec_val (xs @ [c]) = 10 * dec_val xs + digit_val c"
  by (simp add: dec_val_def)

lemma dec_val_digits: "dec_val (dec_digits n) = int n"
proof (induction n rule: dec_digits.induct)
  case (1 n)
  show ?case
  proof (cases "n < 10")
    case True
    then show ?thesis
      by (subst dec_digits.simps) (simp add: dec_val_def digit_val_char)
  next
    case False
    then have "dec_val (dec_digits (n div 10)) = int (n div 10)"
      by (rule "1.IH")
    moreover have "n mod 10 < 10" by simp
    ultimately show ?thesis
      using False
      by (subst dec_digits.simps) (simp add: dec_val_snoc digit_val_char zdiv_int zmod_int)
  qed
qed

lemma dec_val_zeros: "dec_val (replicate k (CHR ''0'') @ xs) = dec_val xs"
proof -
  have "foldl (\<lambda>a c. 10 * a + digit_val c) 0 (replicate k (CHR ''0'')) = 0"
    by (induction k) (simp_all add: digit_val_def)
  then show ?thesis by (simp add: dec_val_def)
qed

lemma dec_val_pad: "dec_val (pad w n) = int n"
  by (simp add: pad_def dec_val_zeros dec_val_digits)

lemma length_digits: "n < 10 ^ w \<Longrightarrow> 0 < w \<Longrightarrow> length (dec_digits n) \<le> w"
proof (induction n arbitrary: w rule: dec_digits.induct)
  case (1 n)
  show ?case
  proof (cases "n < 10")
    case True
    then show ?thesis using "1.prems" by (subst dec_digits.simps) simp
  next
    case False
    obtain v where w: "w = Suc v" using "1.prems"(2) by (cases w) auto
    have "v \<noteq> 0" using False "1.prems"(1) w by (cases v) auto
    moreover have "n div 10 < 10 ^ v" using "1.prems"(1) w by (simp add: less_mult_imp_div_less)
    ultimately have "length (dec_digits (n div 10)) \<le> v"
      using False by (intro "1.IH") auto
    then show ?thesis using False w by (subst dec_digits.simps) simp
  qed
qed

lemma length_pad: "n < 10 ^ w \<Longrightarrow> 0 < w \<Longrightarrow> length (pad w n) = w"
  using length_digits [of n w] by (simp add: pad_def)

lemma digits_nonempty: "dec_digits n \<noteq> []"
  by (subst dec_digits.simps) simp

lemma hd_digits: "hd (dec_digits n) \<noteq> CHR ''-'' \<and> hd (dec_digits n) \<noteq> CHR ''+''"
proof (induction n rule: dec_digits.induct)
  case (1 n)
  show ?case
  proof (cases "n < 10")
    case True
    then show ?thesis by (subst dec_digits.simps, subst (2) dec_digits.simps) (simp add: digit_char_not_sign)
  next
    case False
    then show ?thesis
      using "1.IH" digits_nonempty [of "n div 10"]
      by (subst dec_digits.simps, subst (2) dec_digits.simps) simp
  qed
qed

lemma hd_pad: "hd (pad w n) \<noteq> CHR ''-'' \<and> hd (pad w n) \<noteq> CHR ''+''"
proof (cases "w - length (dec_digits n)")
  case 0
  then show ?thesis by (simp add: pad_def hd_digits)
next
  case (Suc k)
  then show ?thesis by (simp add: pad_def)
qed


lemma parse_iso:
  assumes "length Y = 4" "hd Y \<noteq> CHR ''-''" "hd Y \<noteq> CHR ''+''"
    and "length M = 2" "length D = 2" "length H = 2" "length Mi = 2" "length S = 2"
    and "length Ms = 3"
  shows "time_of_iso (Y @ ''-'' @ M @ ''-'' @ D @ ''T'' @ H @ '':'' @ Mi @ '':'' @ S @ ''.'' @ Ms @ ''Z'') =
     days_from_civil (dec_val Y) (dec_val M) (dec_val D) * 86400000 +
       dec_val H * 3600000 + dec_val Mi * 60000 + dec_val S * 1000 + dec_val Ms"
proof -
  obtain c cs where Y: "Y = c # cs" "length cs = 3"
    using assms(1) by (cases Y) auto
  show ?thesis
    using assms unfolding time_of_iso_def Y by (simp add: Let_def)
qed

lemma parse_iso_signed:
  assumes "sg = CHR ''-'' \<or> sg = CHR ''+''" "length Y = 6"
    and "length M = 2" "length D = 2" "length H = 2" "length Mi = 2" "length S = 2"
    and "length Ms = 3"
  shows "time_of_iso (sg # Y @ ''-'' @ M @ ''-'' @ D @ ''T'' @ H @ '':'' @ Mi @ '':'' @ S @ ''.'' @ Ms @ ''Z'') =
     days_from_civil ((if sg = CHR ''-'' then - 1 else 1) * dec_val Y) (dec_val M) (dec_val D) * 86400000 +
       dec_val H * 3600000 + dec_val Mi * 60000 + dec_val S * 1000 + dec_val Ms"
  using assms unfolding time_of_iso_def by (auto simp: Let_def)

lemma time_of_day:
  fixes ms :: int
  assumes "0 \<le> ms" "ms < 86400000"
  shows "ms div 3600000 * 3600000 + ms div 60000 mod 60 * 60000 + ms div 1000 mod 60 * 1000 +
           ms mod 1000 = ms"
    and "0 \<le> ms div 3600000" and "ms div 3600000 < 100"
proof -
  have a: "ms div 60000 = ms div 1000 div 60"
    by (simp add: zdiv_zmult2_eq [symmetric])
  have b: "ms div 3600000 = ms div 1000 div 60 div 60"
    by (simp add: zdiv_zmult2_eq [symmetric])
  show "ms div 3600000 * 3600000 + ms div 60000 mod 60 * 60000 + ms div 1000 mod 60 * 1000 +
           ms mod 1000 = ms"
  proof -
    have "ms = 1000 * (ms div 1000) + ms mod 1000" by simp
    moreover have "ms div 1000 = 60 * (ms div 1000 div 60) + ms div 1000 mod 60" by simp
    moreover have "ms div 1000 div 60 = 60 * (ms div 1000 div 60 div 60) + ms div 1000 div 60 mod 60"
      by simp
    ultimately show ?thesis unfolding a b by linarith
  qed
  show "0 \<le> ms div 3600000" using assms by simp
  show "ms div 3600000 < 100" using assms by simp
qed

lemma days_bounds:
  fixes t :: int
  assumes "\<bar>t\<bar> \<le> 8640000000000000"
  shows "- 100000000 \<le> t div 86400000" and "t div 86400000 \<le> 100000000"
  using assms by linarith+

lemma year_bounds:
  assumes "civil_from_days days = (y, m, d)" "- 100000000 \<le> days" "days \<le> 100000000"
  shows "- 1000000 < y" and "y < 1000000"
proof -
  have era: "- 685 \<le> (days + 719468) div 146097" "(days + 719468) div 146097 \<le> 690"
    using assms(2,3) by linarith+
  show "- 1000000 < y" and "y < 1000000"
    using civil_facts(6,7) [OF assms(1)] era by linarith+
qed

lemma pad2: "0 \<le> x \<Longrightarrow> x < 100 \<Longrightarrow> length (pad 2 (nat x)) = 2 \<and> dec_val (pad 2 (nat x)) = x"
  by (simp add: length_pad dec_val_pad nat_less_iff)

lemma pad3: "0 \<le> x \<Longrightarrow> x < 1000 \<Longrightarrow> length (pad 3 (nat x)) = 3 \<and> dec_val (pad 3 (nat x)) = x"
  by (simp add: length_pad dec_val_pad nat_less_iff)

lemma pad4: "0 \<le> x \<Longrightarrow> x < 10000 \<Longrightarrow> length (pad 4 (nat x)) = 4 \<and> dec_val (pad 4 (nat x)) = x"
  by (simp add: length_pad dec_val_pad nat_less_iff)

lemma pad6: "0 \<le> x \<Longrightarrow> x < 1000000 \<Longrightarrow> length (pad 6 (nat x)) = 6 \<and> dec_val (pad 6 (nat x)) = x"
  by (simp add: length_pad dec_val_pad nat_less_iff)

lemma iso_unfold:
  assumes "civil_from_days (t div 86400000) = (y, m, d)"
  shows "iso_of_time t =
      year_str y @ ''-'' @ pad 2 (nat m) @ ''-'' @ pad 2 (nat d) @ ''T'' @
      pad 2 (nat (t mod 86400000 div 3600000)) @ '':'' @
      pad 2 (nat (t mod 86400000 div 60000 mod 60)) @ '':'' @
      pad 2 (nat (t mod 86400000 div 1000 mod 60)) @ ''.'' @
      pad 3 (nat (t mod 86400000 mod 1000)) @ ''Z''"
  unfolding iso_of_time_def Let_def assms by simp


lemma iso_round_trip:
  assumes "\<bar>t\<bar> \<le> 8640000000000000"
  shows "time_of_iso (iso_of_time t) = t"
proof -
  define ms where "ms = t mod 86400000"
  obtain y m d where civ: "civil_from_days (t div 86400000) = (y, m, d)"
    by (cases "civil_from_days (t div 86400000)") auto
  note facts = civil_facts [OF civ]
  note y = year_bounds [OF civ days_bounds [OF assms]]
  have ms: "0 \<le> ms" "ms < 86400000"
    unfolding ms_def by simp_all
  note tod = time_of_day [OF ms]
  define M where "M = pad 2 (nat m)"
  define D where "D = pad 2 (nat d)"
  define H where "H = pad 2 (nat (ms div 3600000))"
  define Mi where "Mi = pad 2 (nat (ms div 60000 mod 60))"
  define S where "S = pad 2 (nat (ms div 1000 mod 60))"
  define Ms where "Ms = pad 3 (nat (ms mod 1000))"
  have M: "length M = 2 \<and> dec_val M = m"
    unfolding M_def using facts(2,3) by (intro pad2) linarith+
  have D: "length D = 2 \<and> dec_val D = d"
    unfolding D_def using facts(4,5) by (intro pad2) linarith+
  have H: "length H = 2 \<and> dec_val H = ms div 3600000"
    unfolding H_def using tod(2,3) by (intro pad2)
  have Mi: "length Mi = 2 \<and> dec_val Mi = ms div 60000 mod 60"
    unfolding Mi_def by (intro pad2) simp_all
  have S: "length S = 2 \<and> dec_val S = ms div 1000 mod 60"
    unfolding S_def by (intro pad2) simp_all
  have Ms: "length Ms = 3 \<and> dec_val Ms = ms mod 1000"
    unfolding Ms_def by (intro pad3) simp_all
  have iso: "iso_of_time t =
      year_str y @ ''-'' @ M @ ''-'' @ D @ ''T'' @ H @ '':'' @ Mi @ '':'' @ S @ ''.'' @ Ms @ ''Z''"
    unfolding M_def D_def H_def Mi_def S_def Ms_def ms_def by (rule iso_unfold [OF civ])
  have t: "t = t div 86400000 * 86400000 + ms"
    unfolding ms_def by simp
  have day: "days_from_civil y m d * 86400000 + ms div 3600000 * 3600000 +
      ms div 60000 mod 60 * 60000 + ms div 1000 mod 60 * 1000 + ms mod 1000 = t"
    using tod(1) t unfolding facts(1) by linarith
  show ?thesis
  proof (cases "0 \<le> y \<and> y \<le> 9999")
    case True
    define Y where "Y = pad 4 (nat y)"
    have yr: "year_str y = Y" using True by (simp add: year_str_def Y_def)
    have Y: "length Y = 4 \<and> dec_val Y = y"
      unfolding Y_def using True by (intro pad4) linarith+
    have hd: "hd Y \<noteq> CHR ''-''" "hd Y \<noteq> CHR ''+''"
      unfolding Y_def using hd_pad [of 4 "nat y"] by simp_all
    have "time_of_iso (iso_of_time t) =
        days_from_civil (dec_val Y) (dec_val M) (dec_val D) * 86400000 +
          dec_val H * 3600000 + dec_val Mi * 60000 + dec_val S * 1000 + dec_val Ms"
      unfolding iso yr using Y hd M D H Mi S Ms by (intro parse_iso) simp_all
    also have "\<dots> = t"
      using Y M D H Mi S Ms day by simp
    finally show ?thesis .
  next
    case False
    define sg where "sg = (if y < 0 then CHR ''-'' else CHR ''+'')"
    define Y where "Y = pad 6 (nat \<bar>y\<bar>)"
    have yr: "year_str y = sg # Y" using False by (simp add: year_str_def Y_def sg_def)
    have Y: "length Y = 6 \<and> dec_val Y = \<bar>y\<bar>"
      unfolding Y_def using y by (intro pad6) linarith+
    have sg: "sg = CHR ''-'' \<or> sg = CHR ''+''" by (simp add: sg_def)
    have sgn: "(if sg = CHR ''-'' then - 1 else 1) * dec_val Y = y"
      using Y by (simp add: sg_def)
    have "time_of_iso (iso_of_time t) =
        time_of_iso (sg # Y @ ''-'' @ M @ ''-'' @ D @ ''T'' @ H @ '':'' @ Mi @ '':'' @ S @ ''.'' @ Ms @ ''Z'')"
      unfolding iso yr by simp
    also have "\<dots> =
        days_from_civil ((if sg = CHR ''-'' then - 1 else 1) * dec_val Y) (dec_val M) (dec_val D) * 86400000 +
          dec_val H * 3600000 + dec_val Mi * 60000 + dec_val S * 1000 + dec_val Ms"
      using sg Y M D H Mi S Ms by (intro parse_iso_signed) simp_all
    also have "\<dots> = t"
      unfolding sgn using M D H Mi S Ms day by simp
    finally show ?thesis .
  qed
qed

lemma platform_dates_survive:
  assumes "valid_dates ss"
  shows "dates_survive (with_platform env) ss"
  using assms
  by (simp add: valid_dates_def valid_time_def dates_survive_def with_platform_def
      iso_round_trip)

subsection \<open>Examples\<close>

lemma replicate_small:
  "replicate 1 x = [x]" "replicate 2 x = [x, x]" "replicate 3 x = [x, x, x]"
  by (simp_all add: numeral_2_eq_2 numeral_3_eq_3)

lemmas digits_simps = pad_def dec_digits.simps digit_char_def replicate_small

lemma civil_19737: "civil_from_days 19737 = (2024, 1, 15)"
  by code_simp

lemma days_19737: "days_from_civil 2024 1 15 = 19737"
  by code_simp

lemma iso_examples:
  "iso_of_time 1705312800000 = ''2024-01-15T10:00:00.000Z''"
  "iso_of_time 1705312802500 = ''2024-01-15T10:00:02.500Z''"
  "iso_of_time 1705313100000 = ''2024-01-15T10:05:00.000Z''"
  "iso_of_time 1705320000000 = ''2024-01-15T12:00:00.000Z''"
  by (simp_all add: iso_of_time_def civil_19737 year_str_def digits_simps)

lemma hundredths_92: "hundredths (23 / 25) = ''0.92''"
  by (simp add: hundredths_def digits_simps)

lemma platform_fields:
  "toISOString (with_platform env) = iso_of_time"
  "newDate (with_platform env) = time_of_iso"
  "numToString (with_platform env) = hundredths"
  by (simp_all add: with_platform_def)

lemmas example_defs =
  csv_options_def two_sessions_def question_def answer_def greeting_def

lemma example_rows:
  \<open>all_rows (with_platform env) (sessions (two_sessions answer)) =
     [''1,"Weather",10,user,"Rain, wind, or sun?",2024-01-15T10:00:00.000Z,'',
      ''1,"Weather",11,bot,"It says ""sun"", mostly",2024-01-15T10:00:02.500Z,0.92'',
      ''2,"Ocean",20,user,"Hello",2024-01-15T10:05:00.000Z,'']\<close>
  by (simp add: all_rows_def csv_row_of_def csv_row_def example_defs escapeQuotes_def
      confidence_field_def platform_fields iso_examples hundredths_92)

lemma example_rows_line_break:
  \<open>all_rows (with_platform env)
     (sessions (two_sessions (answer\<lparr>m_text := Some (''Sun.'' @ [LF] @ ''Rain later.'')\<rparr>))) =
     [''1,"Weather",10,user,"Rain, wind, or sun?",2024-01-15T10:00:00.000Z,'',
      ''1,"Weather",11,bot,"Sun.'' @ [LF] @ ''Rain later.",2024-01-15T10:00:02.500Z,0.92'',
      ''2,"Ocean",20,user,"Hello",2024-01-15T10:05:00.000Z,'']\<close>
  by (simp add: all_rows_def csv_row_of_def csv_row_def example_defs escapeQuotes_def
      confidence_field_def platform_fields iso_examples hundredths_92)

lemma example_selected: "selected_of csv_options (two_sessions reply) = sessions (two_sessions reply)"
  by (simp add: selected_of_def csv_options_def two_sessions_def)

lemma parse_examples:
  "time_of_iso ''2024-01-15T10:00:00.000Z'' = 1705312800000"
  "time_of_iso ''2024-01-15T10:00:02.500Z'' = 1705312802500"
  "time_of_iso ''2024-01-15T10:05:00.000Z'' = 1705313100000"
  by (simp_all add: time_of_iso_def days_19737 dec_val_def digit_val_def)

section \<open>Saving and loading\<close>

lemma save_writes_nonempty:
  "sessions st \<noteq> [] \<Longrightarrow>
   localStorage (saveSessions env st) = Some (Saved (map (session_toJSON env) (sessions st)))"
  by (simp add: saveSessions_def)

text \<open>
  C6: after every change of the collection, also one that leaves it empty, the whole
  collection is written to \<^verbatim>\<open>localStorage\<close>. The comment on the saving effect says the
  same (\<^verbatim>\<open>Save sessions to localStorage whenever sessions change\<close>), and for a collection
  that is not empty the effect does it. Its guard \<^verbatim>\<open>sessions.length > 0\<close> skips the
  write when the collection has become empty. From the empty collection a session is
  created and, in the next event, deleted, the effect running after each: the
  collection is empty, \<^verbatim>\<open>localStorage\<close> still holds the deleted session and not the empty
  collection, and the next mount loads the deleted session again.
\<close>

theorem delete_last_session_not_saved:
  "\<forall>env. sessions (saveSessions env (event [DeleteSession ''1'']
                       (saveSessions env (event [CreateSession 1] (initial_state None))))) = []
        \<and> localStorage (saveSessions env (event [DeleteSession ''1'']
                       (saveSessions env (event [CreateSession 1] (initial_state None))))) =
            Some (Saved [\<lparr>ps_id = ''1'', ps_title = ''New Chat'', ps_messages = [],
                          ps_createdAt = toISOString env 1, ps_updatedAt = toISOString env 1\<rparr>])
        \<and> localStorage (saveSessions env (event [DeleteSession ''1'']
                       (saveSessions env (event [CreateSession 1] (initial_state None))))) \<noteq>
            Some (Saved (map (session_toJSON env) []))
        \<and> map s_id (sessions (loadSessions env (initial_state
                (localStorage (saveSessions env (event [DeleteSession ''1'']
                   (saveSessions env (event [CreateSession 1] (initial_state None))))))))) =
            [''1'']"
  by (simp add: event_def run_calls_def saveSessions_def loadSessions_def reviveSession_def
      createNewSession_def deleteSession_def initial_state_def session_toJSON_def
      int_toString_def dec_digits.simps digit_char_def Let_def)

lemma revive_message: 
  "newDate env (toISOString env (m_timestamp m)) = m_timestamp m \<Longrightarrow>
   reviveMessage env (message_toJSON env m) = m"
  by (simp add: reviveMessage_def message_toJSON_def)

lemma revive_messages:
  "\<forall>m \<in> set ms. newDate env (toISOString env (m_timestamp m)) = m_timestamp m \<Longrightarrow>
   map (reviveMessage env \<circ> message_toJSON env) ms = ms"
  by (rule map_idI) (simp add: revive_message)

lemma revive_session:
  "dates_survive env ss \<Longrightarrow> s \<in> set ss \<Longrightarrow> reviveSession env (session_toJSON env s) = s"
  by (simp add: dates_survive_def reviveSession_def session_toJSON_def revive_messages)

lemma revive_sessions:
  "dates_survive env ss \<Longrightarrow> map (reviveSession env \<circ> session_toJSON env) ss = ss"
  by (rule map_idI) (simp add: revive_session)

text \<open>
  C7. When each timestamp of the collection survives the platform's \<^verbatim>\<open>toISOString\<close>
  followed by \<^verbatim>\<open>new Date\<close>, writing the collection in the persisted format and reviving
  it gives back the same sessions, field by field, with the same timestamps to the
  millisecond; and a non-empty collection that the saving effect has written is what
  a fresh hook loads. On the computed \<^verbatim>\<open>toISOString\<close> and its reader, every collection
  of valid dates is such a collection.
\<close>

theorem persisted_round_trip:
  "(dates_survive env (sessions st) \<longrightarrow>
      map (reviveSession env) (map (session_toJSON env) (sessions st)) = sessions st
      \<and> (sessions st \<noteq> [] \<longrightarrow>
            sessions (loadSessions env (initial_state (localStorage (saveSessions env st)))) =
              sessions st))
   \<and> (valid_dates (sessions st) \<longrightarrow> dates_survive (with_platform env) (sessions st))"
  by (simp add: revive_sessions saveSessions_def loadSessions_def initial_state_def
      platform_dates_survive)

text \<open>
  An instance, on the computed \<^verbatim>\<open>toISOString\<close> and its reader: the two sessions of the
  example are stored with ISO texts and come back as they were.
\<close>

theorem persisted_round_trip_witness:
  "\<forall>env. valid_dates (sessions (two_sessions answer))
     \<and> dates_survive (with_platform env) (sessions (two_sessions answer))
     \<and> map ps_createdAt (map (session_toJSON (with_platform env)) (sessions (two_sessions answer))) =
         [''2024-01-15T10:00:00.000Z'', ''2024-01-15T10:05:00.000Z'']
     \<and> map (reviveSession (with_platform env))
           (map (session_toJSON (with_platform env)) (sessions (two_sessions answer))) =
         sessions (two_sessions answer)
     \<and> sessions (loadSessions (with_platform env)
           (initial_state (localStorage (saveSessions (with_platform env) (two_sessions answer))))) =
         sessions (two_sessions answer)"
proof
  fix env
  let ?env = "with_platform env"
  let ?st = "two_sessions answer"
  have v: "valid_dates (sessions ?st)"
    by (simp add: valid_dates_def valid_time_def example_defs)
  have c: "map ps_createdAt (map (session_toJSON ?env) (sessions ?st)) =
         [''2024-01-15T10:00:00.000Z'', ''2024-01-15T10:05:00.000Z'']"
    by (simp add: session_toJSON_def two_sessions_def platform_fields iso_examples)
  have n: "sessions ?st \<noteq> []"
    by (simp add: two_sessions_def)
  have idem: "with_platform ?env = ?env"
    by (simp add: with_platform_def)
  from persisted_round_trip [of ?env ?st] v
  have d: "dates_survive ?env (sessions ?st)"
    unfolding idem by blast
  with persisted_round_trip [of ?env ?st] n
  have "map (reviveSession ?env) (map (session_toJSON ?env) (sessions ?st)) = sessions ?st
     \<and> sessions (loadSessions ?env (initial_state (localStorage (saveSessions ?env ?st)))) =
         sessions ?st"
    by blast
  with v d c show "valid_dates (sessions ?st)
     \<and> dates_survive ?env (sessions ?st)
     \<and> map ps_createdAt (map (session_toJSON ?env) (sessions ?st)) =
         [''2024-01-15T10:00:00.000Z'', ''2024-01-15T10:05:00.000Z'']
     \<and> map (reviveSession ?env) (map (session_toJSON ?env) (sessions ?st)) = sessions ?st
     \<and> sessions (loadSessions ?env (initial_state (localStorage (saveSessions ?env ?st)))) =
         sessions ?st"
    by blast
qed

section \<open>The export\<close>

lemma keeps_refl: "n \<le> length h \<Longrightarrow> keeps n h h"
  by (simp add: keeps_def)

lemma keeps_trans: "keeps n h h1 \<Longrightarrow> keeps n h1 h2 \<Longrightarrow> keeps n h h2"
  by (simp add: keeps_def)

lemma keeps_alloc: "n \<le> length h \<Longrightarrow> keeps n h (snd (alloc v h))"
  by (simp add: keeps_def alloc_def)

lemma keeps_map_alloc:
  assumes f: "\<And>v h. n \<le> length h \<Longrightarrow> keeps n h (snd (f v h))"
  shows "n \<le> length h \<Longrightarrow> keeps n h (snd (map_alloc f rs h))"
proof (induction rs arbitrary: h)
  case Nil
  then show ?case by (simp add: keeps_refl)
next
  case (Cons r rs)
  show ?case
  proof (cases "lookup h r")
    case None
    then show ?thesis using Cons by simp
  next
    case (Some v)
    obtain v' h1 where fv: "f v h = (v', h1)" by (cases "f v h")
    obtain r' h2 where al: "alloc v' h1 = (r', h2)" by (cases "alloc v' h1")
    obtain rs' h3 where rec: "map_alloc f rs h2 = (rs', h3)" by (cases "map_alloc f rs h2")
    have k1: "keeps n h h1" using f [OF Cons.prems, of v] fv by simp
    then have n1: "n \<le> length h1" by (simp add: keeps_def)
    have k2: "keeps n h1 h2" using keeps_alloc [OF n1, of v'] al by simp
    then have n2: "n \<le> length h2" by (simp add: keeps_def)
    have k3: "keeps n h2 h3" using Cons.IH [OF n2] rec by simp
    have "snd (map_alloc f (r # rs) h) = h3"
      using Some fv al rec by simp
    then show ?thesis using keeps_trans [OF keeps_trans [OF k1 k2] k3] by simp
  qed
qed

lemma keeps_without_messages: "n \<le> length h \<Longrightarrow> keeps n h (snd (without_messages v h))"
  by (cases v) (simp_all add: without_messages_def keeps_refl alloc_def keeps_def)

lemma keeps_message_with: "n \<le> length h \<Longrightarrow> keeps n h (snd (message_with f v h))"
  by (cases v) (simp_all add: message_with_def keeps_refl)

lemma keeps_messages_with: "n \<le> length h \<Longrightarrow> keeps n h (snd (messages_with f v h))"
proof (cases v)
  case (SessionObj i t ms c u)
  assume n: "n \<le> length h"
  obtain ms' h1 where m: "map_alloc (message_with f) (elements h ms) h = (ms', h1)"
    by (cases "map_alloc (message_with f) (elements h ms) h")
  have k1: "keeps n h h1"
    using keeps_map_alloc [of n "message_with f" h "elements h ms", OF keeps_message_with n] m
    by simp
  then have "n \<le> length h1" by (simp add: keeps_def)
  then have k2: "keeps n h1 (snd (alloc (ArrayObj ms') h1))" by (rule keeps_alloc)
  show ?thesis
    using SessionObj m keeps_trans [OF k1 k2]
    by (auto simp: messages_with_def split: prod.splits)
qed (simp_all add: messages_with_def keeps_refl)

lemma keeps_assign: "n \<le> e \<Longrightarrow> n \<le> length h \<Longrightarrow> keeps n h (assign_sessions e arr h)"
  by (simp add: assign_sessions_def keeps_def split: option.splits obj.splits)

lemma keeps_replace:
  assumes f: "\<And>v h. n \<le> length h \<Longrightarrow> keeps n h (snd (f v h))"
    and e: "n \<le> e" and n: "n \<le> length h"
  shows "keeps n h (replace_sessions f e h)"
proof -
  obtain rs h1 where m: "map_alloc f (sessions_of h e) h = (rs, h1)"
    by (cases "map_alloc f (sessions_of h e) h")
  obtain arr h2 where a: "alloc (ArrayObj rs) h1 = (arr, h2)"
    by (cases "alloc (ArrayObj rs) h1")
  have k1: "keeps n h h1"
    using keeps_map_alloc [of n f h "sessions_of h e", OF f n] m by simp
  then have n1: "n \<le> length h1" by (simp add: keeps_def)
  have k2: "keeps n h1 h2" using keeps_alloc [OF n1, of "ArrayObj rs"] a by simp
  then have n2: "n \<le> length h2" by (simp add: keeps_def)
  have k3: "keeps n h2 (assign_sessions e arr h2)" using e n2 by (rule keeps_assign)
  show ?thesis
    using m a keeps_trans [OF keeps_trans [OF k1 k2] k3] by (simp add: replace_sessions_def)
qed

lemma keeps_push: "n \<le> a \<Longrightarrow> n \<le> length h \<Longrightarrow> keeps n h (push a row h)"
  by (simp add: push_def keeps_def split: option.splits obj.splits)

lemma keeps_push_messages:
  "n \<le> a \<Longrightarrow> n \<le> length h \<Longrightarrow> keeps n h (snd (push_messages env a s ms h))"
proof (induction ms arbitrary: h)
  case Nil
  then show ?case by (simp add: keeps_refl)
next
  case (Cons m ms)
  show ?case
  proof (cases "csv_row env s m")
    case (Inl e)
    then show ?thesis using Cons.prems by (simp add: keeps_refl)
  next
    case (Inr row)
    have k1: "keeps n h (push a row h)" using Cons.prems by (simp add: keeps_push)
    then have "n \<le> length (push a row h)" by (simp add: keeps_def)
    then have "keeps n (push a row h) (snd (push_messages env a s ms (push a row h)))"
      using Cons.prems(1) by (intro Cons.IH)
    then show ?thesis using Inr keeps_trans [OF k1] by simp
  qed
qed

lemma keeps_push_sessions:
  "n \<le> a \<Longrightarrow> n \<le> length h \<Longrightarrow> keeps n h (snd (push_sessions env a ss h))"
proof (induction ss arbitrary: h)
  case Nil
  then show ?case by (simp add: keeps_refl)
next
  case (Cons s ss)
  obtain e h' where p: "push_messages env a s (s_messages s) h = (e, h')"
    by (cases "push_messages env a s (s_messages s) h")
  have k1: "keeps n h h'"
    using keeps_push_messages [OF Cons.prems, of env s "s_messages s"] p by simp
  show ?case
  proof (cases e)
    case None
    have "n \<le> length h'" using k1 by (simp add: keeps_def)
    then have "keeps n h' (snd (push_sessions env a ss h'))"
      using Cons.prems(1) by (intro Cons.IH)
    then show ?thesis using p None keeps_trans [OF k1] by simp
  next
    case (Some err)
    then show ?thesis using p k1 by simp
  qed
qed

lemma keeps_exportData_store:
  "keeps (length h) h (exportData_store env opts now arr0 h)"
proof -
  let ?n = "length h"
  obtain selected h1 where a1:
    "alloc (ArrayObj (filter (\<lambda>r. case id_at h r of
                                            Some i \<Rightarrow> i \<in> set (selectedSessions opts)
                                          | None \<Rightarrow> False)
                              (elements h arr0))) h = (selected, h1)"
    by (simp add: alloc_def)
  obtain ed h2 where a2: "alloc (ExportObj (toISOString env now) opts selected) h1 = (ed, h2)"
    by (simp add: alloc_def)
  have k1: "keeps ?n h h1" using keeps_alloc [OF le_refl] a1 by (metis snd_conv)
  then have n1: "?n \<le> length h1" by (simp add: keeps_def)
  have k2: "keeps ?n h1 h2" using keeps_alloc [OF n1] a2 by (metis snd_conv)
  have ed: "?n \<le> ed" using n1 a2 by (simp add: alloc_def)
  define h3 where "h3 = (if \<not> includeMessages opts then replace_sessions without_messages ed h2
                else h2)"
  define h4 where "h4 = (if \<not> includeSources opts
                then replace_sessions (messages_with (\<lambda>m. m\<lparr>m_sources := None\<rparr>)) ed h3
                else h3)"
  define h5 where "h5 = (if \<not> includeEntities opts
                then replace_sessions (messages_with (\<lambda>m. m\<lparr>m_entities := None\<rparr>)) ed h4
                else h4)"
  have n2: "?n \<le> length h2" using k2 k1 by (simp add: keeps_def)
  have k3: "keeps ?n h2 h3"
    unfolding h3_def using keeps_replace [OF keeps_without_messages ed n2] n2
    by (simp add: keeps_refl)
  then have n3: "?n \<le> length h3" using n2 by (simp add: keeps_def)
  have k4: "keeps ?n h3 h4"
    unfolding h4_def using keeps_replace [OF keeps_messages_with ed n3] n3
    by (simp add: keeps_refl)
  then have n4: "?n \<le> length h4" using n3 by (simp add: keeps_def)
  have k5: "keeps ?n h4 h5"
    unfolding h5_def using keeps_replace [OF keeps_messages_with ed n4] n4
    by (simp add: keeps_refl)
  then have n5: "?n \<le> length h5" using n4 by (simp add: keeps_def)
  have k05: "keeps ?n h h5"
    using keeps_trans [OF keeps_trans [OF keeps_trans [OF keeps_trans [OF k1 k2] k3] k4] k5] .
  obtain csv h6 where a6: "alloc (RowsObj [csv_header]) h5 = (csv, h6)"
    by (simp add: alloc_def)
  have k6: "keeps ?n h5 h6" using keeps_alloc [OF n5] a6 by (metis snd_conv)
  have c: "?n \<le> csv" using a6 n5 by (simp add: alloc_def)
  have n6: "?n \<le> length h6" using k6 n5 by (simp add: keeps_def)
  have k7: "keeps ?n h6 (snd (push_sessions env csv
                         (denote h6 selected) h6))"
    using c n6 by (rule keeps_push_sessions)
  have eq: "exportData_store env opts now arr0 h =
      (if format opts = ''csv''
       then snd (push_sessions env csv (denote h6 selected) h6)
       else h5)"
    unfolding exportData_store_def Let_def a1 a2 prod.case
      h3_def [symmetric] h4_def [symmetric] h5_def [symmetric] a6
    by simp
  show ?thesis
    unfolding eq using k05 keeps_trans [OF keeps_trans [OF k05 k6] k7] by simp
qed

lemma exportData_store_frame:
  "r < length h \<Longrightarrow> lookup (exportData_store env opts now arr0 h) r = lookup h r"
  using keeps_exportData_store [of h env opts now arr0]
  by (auto simp: keeps_def lookup_def) (metis nth_take)+

text \<open>
  C9. \<^verbatim>\<open>exportData\<close> is a pure read, for every options value and every format. It calls
  no setter: the state of the hook after the call is the state before it (sessions,
  pointer, loading flag, \<^verbatim>\<open>localStorage\<close>). And it writes to no object that existed
  before the call: every object of the store (the array of sessions, each session,
  each array of messages, each message) is after the call what it was before; the
  filters and the rendering allocate new objects and write only to those.
\<close>

theorem export_reads_only:
  "snd (exportData env opts now st) = st
   \<and> (\<forall>r. r < length h \<longrightarrow> lookup (exportData_store env opts now arr h) r = lookup h r)
   \<and> length h \<le> length (exportData_store env opts now arr h)"
proof -
  have "snd (exportData env opts now st) = st"
    by (simp add: exportData_def Let_def)
  moreover have "length h \<le> length (exportData_store env opts now arr h)"
    using keeps_exportData_store [of h env opts now arr] by (simp add: keeps_def)
  ultimately show ?thesis
    using exportData_store_frame [of _ h env opts now arr] by blast
qed

text \<open>
  An instance: an export without sources. The store grows by the selected array (which
  shares the session with the hook), the local object, and a copy of the message, of
  the array of messages, of the session and of the array of sessions; the local object
  ends up pointing to the last. The sessions of the local object are then those of
  \<open>exportObject\<close>, and the sessions of the hook are what they were.
\<close>

theorem export_reads_only_witness:
  "\<forall>env. snd (exportData env json_no_sources 5 (two_sessions answer)) = two_sessions answer
     \<and> exportData_store env json_no_sources 5 0 example_store =
       example_store @
       [ArrayObj [1],
        ExportObj (toISOString env 5) json_no_sources 9,
        MessageObj (question\<lparr>m_sources := None\<rparr>),
        ArrayObj [6],
        SessionObj ''1'' ''Weather'' 7 1 1,
        ArrayObj [8]]
     \<and> denote (exportData_store env json_no_sources 5 0 example_store) 9 =
       ed_sessions (exportObject env json_no_sources 5 (denote example_store 0))
     \<and> denote (exportData_store env json_no_sources 5 0 example_store) 0 =
       denote example_store 0"
proof
  fix env
  have grown: "exportData_store env json_no_sources 5 0 example_store =
       example_store @
       [ArrayObj [1],
        ExportObj (toISOString env 5) json_no_sources 9,
        MessageObj (question\<lparr>m_sources := None\<rparr>),
        ArrayObj [6],
        SessionObj ''1'' ''Weather'' 7 1 1,
        ArrayObj [8]]"
    by (simp add: exportData_store_def example_store_def json_no_sources_def alloc_def
        elements_def lookup_def id_at_def replace_sessions_def sessions_of_def
        messages_with_def message_with_def assign_sessions_def Let_def)
  have before: "denote example_store 0 =
       [\<lparr>s_id = ''1'', s_title = ''Weather'', s_messages = [question],
         s_createdAt = 1, s_updatedAt = 1\<rparr>]"
    by (simp add: denote_def example_store_def elements_def lookup_def session_at_def
        message_at_def List.map_filter_simps)
  have copy: "denote (exportData_store env json_no_sources 5 0 example_store) 9 =
       ed_sessions (exportObject env json_no_sources 5 (denote example_store 0))"
    unfolding grown before
    by (simp add: denote_def example_store_def elements_def lookup_def session_at_def
        message_at_def List.map_filter_simps exportObject_def json_no_sources_def)
  have same: "denote (exportData_store env json_no_sources 5 0 example_store) 0 =
       denote example_store 0"
    unfolding grown before
    by (simp add: denote_def example_store_def elements_def lookup_def session_at_def
        message_at_def List.map_filter_simps)
  from grown copy same
  show "snd (exportData env json_no_sources 5 (two_sessions answer)) = two_sessions answer
     \<and> exportData_store env json_no_sources 5 0 example_store =
       example_store @
       [ArrayObj [1],
        ExportObj (toISOString env 5) json_no_sources 9,
        MessageObj (question\<lparr>m_sources := None\<rparr>),
        ArrayObj [6],
        SessionObj ''1'' ''Weather'' 7 1 1,
        ArrayObj [8]]
     \<and> denote (exportData_store env json_no_sources 5 0 example_store) 9 =
       ed_sessions (exportObject env json_no_sources 5 (denote example_store 0))
     \<and> denote (exportData_store env json_no_sources 5 0 example_store) 0 =
       denote example_store 0"
    using export_reads_only [of env json_no_sources 5 "two_sessions answer" example_store 0]
    by simp
qed

lemma ocean_object:
  "exportObject (with_json (with_platform env)) (ocean_options f) 1705320000000
     (selected_of (ocean_options f) (two_sessions answer)) =
   \<lparr>exportedAt = ''2024-01-15T12:00:00.000Z'', options = ocean_options f,
    ed_sessions = [\<lparr>s_id = ''2'', s_title = ''Ocean'', s_messages = [greeting],
                    s_createdAt = 1705313100000, s_updatedAt = 1705313100000\<rparr>]\<rparr>"
  by (simp add: exportObject_def selected_of_def ocean_options_def two_sessions_def
      with_json_def platform_fields iso_examples)

lemma ocean_text:
  "f \<noteq> ''csv'' \<Longrightarrow> f \<noteq> ''html'' \<Longrightarrow> \<forall>c \<in> set f. json_escape c = [c] \<Longrightarrow>
   export_content (fst (exportData (with_json (with_platform env)) (ocean_options f)
     1705320000000 (two_sessions answer))) = ocean_dump f"
proof -
  assume f: "f \<noteq> ''csv''" "f \<noteq> ''html''" and plain: "\<forall>c \<in> set f. json_escape c = [c]"
  let ?env = "with_json (with_platform env)"
  have quote: "json_quote f = [DQ] @ f @ [DQ]"
    using plain by (induction f) (simp_all add: json_quote_def)
  have fmt: "format (ocean_options f) = f"
    by (simp add: ocean_options_def)
  have out: "export_content (fst (exportData ?env (ocean_options f) 1705320000000
               (two_sessions answer))) =
             JSON_stringify ?env (exportObject ?env (ocean_options f) 1705320000000
               (selected_of (ocean_options f) (two_sessions answer)))"
    using f by (simp add: exportData_def export_content_def selected_of_def fmt Let_def)
  have printer: "JSON_stringify ?env = json_text hundredths iso_of_time"
    by (simp add: with_json_def platform_fields)
  have opts: "options_json (ocean_options f) =
      JObject [(''format'', JString f), (''includeMessages'', JBool True),
               (''includeSources'', JBool True), (''includeEntities'', JBool True),
               (''includeMetadata'', JBool True), (''dateRange'', JString ''all''),
               (''selectedSessions'', JArray [JString ''2''])]"
    by (simp add: options_json_def ocean_options_def)
  have sess: "session_json hundredths iso_of_time
        \<lparr>s_id = ''2'', s_title = ''Ocean'', s_messages = [greeting],
         s_createdAt = 1705313100000, s_updatedAt = 1705313100000\<rparr> =
      JObject [(''id'', JString ''2''), (''title'', JString ''Ocean''),
               (''messages'', JArray [JObject [(''id'', JString ''20''),
                  (''text'', JString ''Hello''), (''sender'', JString ''user''),
                  (''timestamp'', JString ''2024-01-15T10:05:00.000Z'')]]),
               (''createdAt'', JString ''2024-01-15T10:05:00.000Z''),
               (''updatedAt'', JString ''2024-01-15T10:05:00.000Z'')]"
    by (simp add: session_json_def message_json_def greeting_def property_def iso_examples)
  show ?thesis
    unfolding out printer ocean_object json_text_def export_json_def
    by (simp add: opts sess quote ocean_dump_def spaces_def)
       (simp add: json_quote_def json_escape_def)
qed

text \<open>
  C10, as amended. For \<^verbatim>\<open>pdf\<close> and for any unknown format (every format other than
  \<^verbatim>\<open>csv\<close> and \<^verbatim>\<open>html\<close>) the export takes the default branch, which does what the
  \<^verbatim>\<open>json\<close> branch does: the file is the \<^verbatim>\<open>JSON.stringify\<close> dump of
  \<^verbatim>\<open>{ exportedAt, options, sessions }\<close>, its name ends in \<^verbatim>\<open>.json\<close> and its type is
  \<^verbatim>\<open>application/json\<close>. The dumped \<^verbatim>\<open>options\<close> are the options of the call: the object
  dumped is the one a \<^verbatim>\<open>json\<close> export of the same selection at the same instant dumps,
  but for \<^verbatim>\<open>options.format\<close>, which holds the format that was asked for.
\<close>

theorem export_default_is_json:
  assumes "f \<noteq> ''csv''" and "f \<noteq> ''html''"
  shows "fst (exportData env (opts\<lparr>format := f\<rparr>) now st) =
           Inr \<lparr>filename = ''mosdac-export-'' @ split_first (CHR ''T'') (toISOString env now) @ ''.json'',
                mimeType = ''application/json'',
                content = JSON_stringify env
                  (exportObject env (opts\<lparr>format := f\<rparr>) now (selected_of opts st))\<rparr>
         \<and> exportedAt (exportObject env (opts\<lparr>format := f\<rparr>) now (selected_of opts st)) =
             toISOString env now
         \<and> options (exportObject env (opts\<lparr>format := f\<rparr>) now (selected_of opts st)) =
             opts\<lparr>format := f\<rparr>
         \<and> map s_id (ed_sessions (exportObject env (opts\<lparr>format := f\<rparr>) now (selected_of opts st))) =
             map s_id (selected_of opts st)
         \<and> exportObject env (opts\<lparr>format := f\<rparr>) now (selected_of opts st) =
             (exportObject env (opts\<lparr>format := ''json''\<rparr>) now (selected_of opts st))
               \<lparr>options := opts\<lparr>format := f\<rparr>\<rparr>"
  using assms
  by (simp add: exportData_def exportObject_def selected_of_def Let_def)

text \<open>An instance: \<^verbatim>\<open>pdf\<close> and \<^verbatim>\<open>json\<close> on the example, with the computed file name.\<close>

theorem export_default_is_json_witness:
  "\<forall>env. fst (exportData (with_platform env) (csv_options\<lparr>format := ''pdf''\<rparr>) 1705320000000
             (two_sessions answer)) =
       Inr \<lparr>filename = ''mosdac-export-2024-01-15.json'', mimeType = ''application/json'',
            content = JSON_stringify (with_platform env)
              \<lparr>exportedAt = ''2024-01-15T12:00:00.000Z'',
               options = csv_options\<lparr>format := ''pdf''\<rparr>,
               ed_sessions = sessions (two_sessions answer)\<rparr>\<rparr>
     \<and> fst (exportData (with_platform env) (csv_options\<lparr>format := ''json''\<rparr>) 1705320000000
             (two_sessions answer)) =
       Inr \<lparr>filename = ''mosdac-export-2024-01-15.json'', mimeType = ''application/json'',
            content = JSON_stringify (with_platform env)
              \<lparr>exportedAt = ''2024-01-15T12:00:00.000Z'',
               options = csv_options\<lparr>format := ''json''\<rparr>,
               ed_sessions = sessions (two_sessions answer)\<rparr>\<rparr>"
proof
  fix env
  let ?env = "with_platform env"
  let ?st = "two_sessions answer"
  have obj: "exportObject ?env (csv_options\<lparr>format := f\<rparr>) 1705320000000 (selected_of csv_options ?st) =
      \<lparr>exportedAt = ''2024-01-15T12:00:00.000Z'', options = csv_options\<lparr>format := f\<rparr>,
       ed_sessions = sessions ?st\<rparr>" for f
    unfolding example_selected
    by (simp add: exportObject_def csv_options_def platform_fields iso_examples)
  have name: "''mosdac-export-'' @ split_first (CHR ''T'') (toISOString ?env 1705320000000) @ ''.json'' =
      ''mosdac-export-2024-01-15.json''"
    by (simp add: platform_fields iso_examples split_first_def)
  have pdf: "''pdf'' \<noteq> ''csv''" "''pdf'' \<noteq> ''html''" by simp_all
  have json: "''json'' \<noteq> ''csv''" "''json'' \<noteq> ''html''" by simp_all
  from export_default_is_json [OF pdf, of ?env csv_options 1705320000000 ?st]
       export_default_is_json [OF json, of ?env csv_options 1705320000000 ?st]
  show "fst (exportData ?env (csv_options\<lparr>format := ''pdf''\<rparr>) 1705320000000 ?st) =
       Inr \<lparr>filename = ''mosdac-export-2024-01-15.json'', mimeType = ''application/json'',
            content = JSON_stringify ?env
              \<lparr>exportedAt = ''2024-01-15T12:00:00.000Z'',
               options = csv_options\<lparr>format := ''pdf''\<rparr>,
               ed_sessions = sessions ?st\<rparr>\<rparr>
     \<and> fst (exportData ?env (csv_options\<lparr>format := ''json''\<rparr>) 1705320000000 ?st) =
       Inr \<lparr>filename = ''mosdac-export-2024-01-15.json'', mimeType = ''application/json'',
            content = JSON_stringify ?env
              \<lparr>exportedAt = ''2024-01-15T12:00:00.000Z'',
               options = csv_options\<lparr>format := ''json''\<rparr>,
               ed_sessions = sessions ?st\<rparr>\<rparr>"
    unfolding obj name by blast
qed

text \<open>
  C10 as stated fails: the output for \<^verbatim>\<open>pdf\<close> is not the output for \<^verbatim>\<open>json\<close>. On the
  example, with \<^verbatim>\<open>JSON.stringify\<close> computed, the two files are the text \<open>ocean_dump\<close>
  with \<^verbatim>\<open>pdf\<close> and with \<^verbatim>\<open>json\<close> in the fourth line.
\<close>

theorem pdf_export_differs_counterexample:
  "\<forall>env. export_content (fst (exportData (with_json (with_platform env)) (ocean_options ''pdf'')
             1705320000000 (two_sessions answer))) = ocean_dump ''pdf''
     \<and> export_content (fst (exportData (with_json (with_platform env)) (ocean_options ''json'')
             1705320000000 (two_sessions answer))) = ocean_dump ''json''
     \<and> fst (exportData (with_json (with_platform env)) (ocean_options ''pdf'')
             1705320000000 (two_sessions answer)) \<noteq>
       fst (exportData (with_json (with_platform env)) (ocean_options ''json'')
             1705320000000 (two_sessions answer))"
proof
  fix env
  let ?pdf = "fst (exportData (with_json (with_platform env)) (ocean_options ''pdf'')
             1705320000000 (two_sessions answer))"
  let ?json = "fst (exportData (with_json (with_platform env)) (ocean_options ''json'')
             1705320000000 (two_sessions answer))"
  have pdf: "export_content ?pdf = ocean_dump ''pdf''"
    by (rule ocean_text) (simp_all add: json_escape_def)
  have json: "export_content ?json = ocean_dump ''json''"
    by (rule ocean_text) (simp_all add: json_escape_def)
  have "ocean_dump ''pdf'' \<noteq> ocean_dump ''json''"
    by (simp add: ocean_dump_def)
  then have "?pdf \<noteq> ?json"
    using pdf json by metis
  then show "export_content ?pdf = ocean_dump ''pdf'' \<and> export_content ?json = ocean_dump ''json''
      \<and> ?pdf \<noteq> ?json"
    using pdf json by simp
qed

lemma csv_row_defined: "m_text m = Some t \<Longrightarrow> csv_row env s m = Inr (csv_row_of env s m)"
  by (simp add: csv_row_of_def csv_row_def)

lemma forEach_message_rows:
  "\<forall>m \<in> set ms. m_text m \<noteq> None \<Longrightarrow>
   forEach_message env s ms acc = Inr (acc @ map (csv_row_of env s) ms)"
proof (induction ms arbitrary: acc)
  case Nil
  then show ?case by simp
next
  case (Cons m ms)
  then obtain t where "m_text m = Some t" by auto
  then have "csv_row env s m = Inr (csv_row_of env s m)" by (rule csv_row_defined)
  then show ?case using Cons by simp
qed

lemma forEach_session_rows:
  "\<forall>s \<in> set ss. \<forall>m \<in> set (s_messages s). m_text m \<noteq> None \<Longrightarrow>
   forEach_session env ss acc = Inr (acc @ all_rows env ss)"
proof (induction ss arbitrary: acc)
  case Nil
  then show ?case by (simp add: all_rows_def)
next
  case (Cons s ss)
  then have "forEach_message env s (s_messages s) acc = Inr (acc @ map (csv_row_of env s) (s_messages s))"
    by (simp add: forEach_message_rows)
  then show ?case using Cons by (simp add: all_rows_def)
qed

lemma length_all_rows:
  "length (all_rows env ss) = sum_list (map (\<lambda>s. length (s_messages s)) ss)"
  by (induction ss) (simp_all add: all_rows_def)

lemma length_split: "length (split d s) = Suc (length (filter (\<lambda>c. c = d) s))"
proof (induction s)
  case Nil
  then show ?case by simp
next
  case (Cons c cs)
  then show ?case by (cases "split d cs") auto
qed

lemma count_join:
  "\<forall>r \<in> set (r0 # rows). d \<notin> set r \<Longrightarrow>
   length (filter (\<lambda>c. c = d) (join [d] (r0 # rows))) = length rows"
proof (induction rows arbitrary: r0)
  case Nil
  then show ?case by (auto simp: filter_empty_conv)
next
  case (Cons r rows)
  have "filter (\<lambda>c. c = d) r0 = []"
    using Cons.prems by (auto simp: filter_empty_conv)
  moreover have "length (filter (\<lambda>c. c = d) (join [d] (r # rows))) = length rows"
    using Cons.prems by (intro Cons.IH) simp
  ultimately show ?case by simp
qed

lemma filter_escapeQuotes:
  "filter (\<lambda>c. c \<noteq> DQ) (escapeQuotes t) = filter (\<lambda>c. c \<noteq> DQ) t"
  by (induction t) (simp_all add: escapeQuotes_def)

lemma quotes_escapeQuotes:
  "length (filter (\<lambda>c. c = DQ) (escapeQuotes t)) = 2 * length (filter (\<lambda>c. c = DQ) t)"
  by (induction t) (simp_all add: escapeQuotes_def)

lemma csv_row_of_text:
  "m_text m = Some t \<Longrightarrow>
   csv_row_of env s m =
     s_id s @ '','' @ [DQ] @ s_title s @ [DQ] @ '','' @ m_id m @ '','' @
     sender_str (m_sender m) @ '','' @ [DQ] @ escapeQuotes t @ [DQ] @ '','' @
     toISOString env (m_timestamp m) @ '','' @ confidence_field env m"
  by (simp add: csv_row_of_def csv_row_def)

lemma csv_export:
  assumes "format opts = ''csv''"
    and "\<forall>s \<in> set (selected_of opts st). \<forall>m \<in> set (s_messages s). m_text m \<noteq> None"
  shows "fst (exportData env opts now st) =
           Inr \<lparr>filename = ''mosdac-export-'' @ split_first (CHR ''T'') (toISOString env now) @ ''.csv'',
                mimeType = ''text/csv'',
                content = join [LF] (csv_header # all_rows env (selected_of opts st))\<rparr>"
proof -
  let ?sel = "selected_of opts st"
  have rows: "forEach_session env ?sel [csv_header] = Inr ([csv_header] @ all_rows env ?sel)"
    using assms(2) by (rule forEach_session_rows)
  show ?thesis
    using assms(1) rows by (simp add: exportData_def Let_def selected_of_def)
qed

lemma length_lines_join:
  assumes "\<forall>r \<in> set rows. LF \<notin> set r"
  shows "length (lines (join [LF] (csv_header # rows))) = 1 + length rows"
proof -
  have "LF \<notin> set csv_header"
    by (simp add: csv_header_def)
  then have "\<forall>r \<in> set (csv_header # rows). LF \<notin> set r"
    using assms by simp
  then have "length (filter (\<lambda>c. c = LF) (join [LF] (csv_header # rows))) = length rows"
    by (rule count_join)
  then show ?thesis
    by (simp add: lines_def length_split)
qed

text \<open>
  C8, as amended. When every message of the selected sessions has a text, the CSV
  export is the header row followed by one row per message, session by session and
  message by message, the rows joined by line feeds. A row is the session id, the
  quoted title, the message id, the sender, the quoted text, the ISO timestamp and the
  confidence, joined by commas; in the quoted text every quote is doubled and every
  other character, commas included, is kept. The number of rows is one more than the
  number of messages, and so is the number of lines of the file when no row contains
  a line feed.
\<close>

theorem csv_export_rows:
  assumes "format opts = ''csv''"
    and "\<forall>s \<in> set (selected_of opts st). \<forall>m \<in> set (s_messages s). m_text m \<noteq> None"
  shows "fst (exportData env opts now st) =
           Inr \<lparr>filename = ''mosdac-export-'' @ split_first (CHR ''T'') (toISOString env now) @ ''.csv'',
                mimeType = ''text/csv'',
                content = join [LF] (csv_header # all_rows env (selected_of opts st))\<rparr>
         \<and> all_rows env (selected_of opts st) =
             concat (map (\<lambda>s. map (csv_row_of env s) (s_messages s)) (selected_of opts st))
         \<and> length (all_rows env (selected_of opts st)) =
             sum_list (map (\<lambda>s. length (s_messages s)) (selected_of opts st))
         \<and> (\<forall>s m t. m_text m = Some t \<longrightarrow>
               csv_row_of env s m =
                 s_id s @ '','' @ [DQ] @ s_title s @ [DQ] @ '','' @ m_id m @ '','' @
                 sender_str (m_sender m) @ '','' @ [DQ] @ escapeQuotes t @ [DQ] @ '','' @
                 toISOString env (m_timestamp m) @ '','' @ confidence_field env m)
         \<and> (\<forall>t. filter (\<lambda>c. c \<noteq> DQ) (escapeQuotes t) = filter (\<lambda>c. c \<noteq> DQ) t
                \<and> length (filter (\<lambda>c. c = DQ) (escapeQuotes t)) =
                    2 * length (filter (\<lambda>c. c = DQ) t))
         \<and> ((\<forall>r \<in> set (all_rows env (selected_of opts st)). LF \<notin> set r) \<longrightarrow>
               length (lines (export_content (fst (exportData env opts now st)))) =
                 1 + sum_list (map (\<lambda>s. length (s_messages s)) (selected_of opts st)))"
proof -
  let ?sel = "selected_of opts st"
  have out: "fst (exportData env opts now st) =
           Inr \<lparr>filename = ''mosdac-export-'' @ split_first (CHR ''T'') (toISOString env now) @ ''.csv'',
                mimeType = ''text/csv'',
                content = join [LF] (csv_header # all_rows env ?sel)\<rparr>"
    using assms by (rule csv_export)
  have lines: "(\<forall>r \<in> set (all_rows env ?sel). LF \<notin> set r) \<longrightarrow>
               length (lines (export_content (fst (exportData env opts now st)))) =
                 1 + sum_list (map (\<lambda>s. length (s_messages s)) ?sel)"
    by (simp add: out export_content_def length_lines_join length_all_rows)
  have concat: "all_rows env ?sel =
             concat (map (\<lambda>s. map (csv_row_of env s) (s_messages s)) ?sel)"
    by (simp add: all_rows_def)
  have len: "length (all_rows env ?sel) = sum_list (map (\<lambda>s. length (s_messages s)) ?sel)"
    by (rule length_all_rows)
  have row: "\<forall>s m t. m_text m = Some t \<longrightarrow>
               csv_row_of env s m =
                 s_id s @ '','' @ [DQ] @ s_title s @ [DQ] @ '','' @ m_id m @ '','' @
                 sender_str (m_sender m) @ '','' @ [DQ] @ escapeQuotes t @ [DQ] @ '','' @
                 toISOString env (m_timestamp m) @ '','' @ confidence_field env m"
    using csv_row_of_text by blast
  have esc: "\<forall>t. filter (\<lambda>c. c \<noteq> DQ) (escapeQuotes t) = filter (\<lambda>c. c \<noteq> DQ) t
                \<and> length (filter (\<lambda>c. c = DQ) (escapeQuotes t)) =
                    2 * length (filter (\<lambda>c. c = DQ) t)"
    using filter_escapeQuotes quotes_escapeQuotes by blast
  from out concat len row esc lines show ?thesis
    by (intro conjI) assumption+
qed

text \<open>
  An instance, the scenario of the specification: two sessions, three messages, a text
  with commas and a text with quotes. The file has four lines.
\<close>

theorem csv_export_rows_witness:
  \<open>\<forall>env. fst (exportData (with_platform env) csv_options 1705320000000 (two_sessions answer)) =
     Inr \<lparr>filename = ''mosdac-export-2024-01-15.csv'', mimeType = ''text/csv'',
          content =
            ''Session ID,Title,Message ID,Sender,Text,Timestamp,Confidence'' @ [LF] @
            ''1,"Weather",10,user,"Rain, wind, or sun?",2024-01-15T10:00:00.000Z,'' @ [LF] @
            ''1,"Weather",11,bot,"It says ""sun"", mostly",2024-01-15T10:00:02.500Z,0.92'' @ [LF] @
            ''2,"Ocean",20,user,"Hello",2024-01-15T10:05:00.000Z,''\<rparr>
   \<and> length (lines (export_content
         (fst (exportData (with_platform env) csv_options 1705320000000 (two_sessions answer))))) = 4\<close>
proof
  fix env
  let ?st = "two_sessions answer"
  let ?out = "fst (exportData (with_platform env) csv_options 1705320000000 ?st)"
  have f: "format csv_options = ''csv''"
    by (simp add: csv_options_def)
  have t: "\<forall>s \<in> set (selected_of csv_options ?st). \<forall>m \<in> set (s_messages s). m_text m \<noteq> None"
    unfolding example_selected by (simp add: example_defs)
  note th = csv_export_rows [OF f t, of "with_platform env" 1705320000000]
  from th have out: "?out =
      Inr \<lparr>filename = ''mosdac-export-'' @
              split_first (CHR ''T'') (toISOString (with_platform env) 1705320000000) @ ''.csv'',
           mimeType = ''text/csv'',
           content = join [LF] (csv_header #
              all_rows (with_platform env) (selected_of csv_options ?st))\<rparr>"
    by (rule conjunct1)
  have no_break: "\<forall>r \<in> set (all_rows (with_platform env) (selected_of csv_options ?st)).
      LF \<notin> set r"
    unfolding example_selected example_rows by simp
  with th have "length (lines (export_content ?out)) =
      1 + sum_list (map (\<lambda>s. length (s_messages s)) (selected_of csv_options ?st))"
    by blast
  then have four: "length (lines (export_content ?out)) = 4"
    unfolding example_selected by (simp add: two_sessions_def)
  have \<open>?out =
     Inr \<lparr>filename = ''mosdac-export-2024-01-15.csv'', mimeType = ''text/csv'',
          content =
            ''Session ID,Title,Message ID,Sender,Text,Timestamp,Confidence'' @ [LF] @
            ''1,"Weather",10,user,"Rain, wind, or sun?",2024-01-15T10:00:00.000Z,'' @ [LF] @
            ''1,"Weather",11,bot,"It says ""sun"", mostly",2024-01-15T10:00:02.500Z,0.92'' @ [LF] @
            ''2,"Ocean",20,user,"Hello",2024-01-15T10:05:00.000Z,''\<rparr>\<close>
    unfolding out example_selected example_rows
    by (simp add: csv_header_def platform_fields iso_examples split_first_def)
  with four show \<open>?out =
     Inr \<lparr>filename = ''mosdac-export-2024-01-15.csv'', mimeType = ''text/csv'',
          content =
            ''Session ID,Title,Message ID,Sender,Text,Timestamp,Confidence'' @ [LF] @
            ''1,"Weather",10,user,"Rain, wind, or sun?",2024-01-15T10:00:00.000Z,'' @ [LF] @
            ''1,"Weather",11,bot,"It says ""sun"", mostly",2024-01-15T10:00:02.500Z,0.92'' @ [LF] @
            ''2,"Ocean",20,user,"Hello",2024-01-15T10:05:00.000Z,''\<rparr>
   \<and> length (lines (export_content ?out)) = 4\<close>
    by (rule conjI [rotated])
qed

text \<open>
  C8 as stated fails for a text with a line break: two sessions with three messages
  give a file of five lines, the row of that message taking two.
\<close>

theorem csv_line_break_counterexample:
  \<open>\<forall>env. length (sessions (two_sessions (answer\<lparr>m_text := Some (''Sun.'' @ [LF] @ ''Rain later.'')\<rparr>))) = 2
   \<and> sum_list (map (\<lambda>s. length (s_messages s))
        (sessions (two_sessions (answer\<lparr>m_text := Some (''Sun.'' @ [LF] @ ''Rain later.'')\<rparr>)))) = 3
   \<and> length (lines (export_content
         (fst (exportData (with_platform env) csv_options 1705320000000
            (two_sessions (answer\<lparr>m_text := Some (''Sun.'' @ [LF] @ ''Rain later.'')\<rparr>)))))) = 5\<close>
proof
  fix env
  let ?st = "two_sessions (answer\<lparr>m_text := Some (''Sun.'' @ [LF] @ ''Rain later.'')\<rparr>)"
  have "fst (exportData (with_platform env) csv_options 1705320000000 ?st) =
           Inr \<lparr>filename = ''mosdac-export-'' @
                   split_first (CHR ''T'') (toISOString (with_platform env) 1705320000000) @ ''.csv'',
                mimeType = ''text/csv'',
                content = join [LF] (csv_header #
                   all_rows (with_platform env) (selected_of csv_options ?st))\<rparr>"
    by (rule csv_export) (simp_all add: example_selected, simp_all add: example_defs)
  then have "length (lines (export_content
         (fst (exportData (with_platform env) csv_options 1705320000000 ?st)))) = 5"
    unfolding example_selected example_rows_line_break
    by (simp add: export_content_def lines_def length_split csv_header_def)
  then show "length (sessions ?st) = 2
   \<and> sum_list (map (\<lambda>s. length (s_messages s)) (sessions ?st)) = 3
   \<and> length (lines (export_content
         (fst (exportData (with_platform env) csv_options 1705320000000 ?st)))) = 5"
    by (simp add: two_sessions_def)
qed

end
